theory Spec2Isabelle
  imports Complex_Main "HOL-Library.AList"
begin

section \<open>Python exceptions, floats and values\<close>

text \<open>
  An exception object, an instance of \<open>Exception\<close>: its class name, the text
  \<open>str(e)\<close> yields, and its \<open>__cause__\<close> (set only by \<open>raise ... from ...\<close>, which
  the sources never use). Exits that are not instances of \<open>Exception\<close>
  (\<open>KeyboardInterrupt\<close>, \<open>asyncio.CancelledError\<close>) and exception classes whose
  \<open>__str__\<close> itself raises are not modelled.
\<close>

datatype exn = Exn (exn_class: string) (exn_msg: string) (exn_cause: "exn option")

subsection \<open>Floats\<close>

text \<open>
  A Python float is an IEEE 754 binary64 value: a finite one, given by the real number
  it stands for, an infinity or a NaN. The two zeros compare equal and are both
  \<open>Fin 0\<close>.
\<close>

datatype pyfloat = Fin real | PosInf | NegInf | NaN

text \<open>Powers of two with an integer exponent.\<close>

definition pow2 :: "int \<Rightarrow> real" where
  "pow2 k = (if 0 \<le> k then 2 ^ nat k else 1 / 2 ^ nat (- k))"

text \<open>To the nearest integer, a tie going to the even one.\<close>

definition round_half_even :: "real \<Rightarrow> int" where
  "round_half_even y =
     (let f = \<lfloor>y\<rfloor>; d = y - of_int f
      in if d < 1 / 2 then f else if 1 / 2 < d then f + 1 else if even f then f else f + 1)"

text \<open>
  The exponent of the last place of the doubles around \<open>x\<close>: 53 significant bits,
  and no exponent below that of the subnormal numbers.
\<close>

definition quantum_exponent :: "real \<Rightarrow> int" where
  "quantum_exponent x = max (\<lfloor>log 2 \<bar>x\<bar>\<rfloor> - 52) (- 1074)"

text \<open>Rounding to the nearest double, ties to even, with the exponent unbounded above.\<close>

definition nearest_binary64 :: "real \<Rightarrow> real" where
  "nearest_binary64 x =
     (if x = 0 then 0
      else of_int (round_half_even (x / pow2 (quantum_exponent x))) * pow2 (quantum_exponent x))"

text \<open>The float an exact result becomes: the nearest double, or an infinity when that
  is beyond the largest double.\<close>

definition to_float :: "real \<Rightarrow> pyfloat" where
  "to_float x =
     (let y = nearest_binary64 x
      in if 2 ^ 1024 \<le> y then PosInf else if y \<le> - (2 ^ 1024) then NegInf else Fin y)"

text \<open>Float addition, negation, subtraction and multiplication.\<close>

fun fadd :: "pyfloat \<Rightarrow> pyfloat \<Rightarrow> pyfloat" where
  "fadd (Fin x) (Fin y) = to_float (x + y)"
| "fadd NaN b = NaN"
| "fadd a NaN = NaN"
| "fadd PosInf NegInf = NaN"
| "fadd NegInf PosInf = NaN"
| "fadd PosInf b = PosInf"
| "fadd NegInf b = NegInf"
| "fadd a PosInf = PosInf"
| "fadd a NegInf = NegInf"

fun fneg :: "pyfloat \<Rightarrow> pyfloat" where
  "fneg (Fin x) = Fin (- x)"
| "fneg PosInf = NegInf"
| "fneg NegInf = PosInf"
| "fneg NaN = NaN"

definition fsub :: "pyfloat \<Rightarrow> pyfloat \<Rightarrow> pyfloat" where
  "fsub a b = fadd a (fneg b)"

text \<open>An infinity of the sign of a nonzero real.\<close>

definition signed_inf :: "real \<Rightarrow> pyfloat" where
  "signed_inf x = (if 0 < x then PosInf else NegInf)"

fun fmul :: "pyfloat \<Rightarrow> pyfloat \<Rightarrow> pyfloat" where
  "fmul (Fin x) (Fin y) = to_float (x * y)"
| "fmul NaN b = NaN"
| "fmul a NaN = NaN"
| "fmul (Fin x) PosInf = (if x = 0 then NaN else signed_inf x)"
| "fmul (Fin x) NegInf = (if x = 0 then NaN else signed_inf (- x))"
| "fmul PosInf (Fin y) = (if y = 0 then NaN else signed_inf y)"
| "fmul NegInf (Fin y) = (if y = 0 then NaN else signed_inf (- y))"
| "fmul PosInf PosInf = PosInf"
| "fmul PosInf NegInf = NegInf"
| "fmul NegInf PosInf = NegInf"
| "fmul NegInf NegInf = PosInf"

text \<open>The quotient of two floats, the divisor not zero.\<close>

fun fquot :: "pyfloat \<Rightarrow> pyfloat \<Rightarrow> pyfloat" where
  "fquot (Fin x) (Fin y) = to_float (x / y)"
| "fquot NaN b = NaN"
| "fquot a NaN = NaN"
| "fquot PosInf (Fin y) = signed_inf y"
| "fquot NegInf (Fin y) = signed_inf (- y)"
| "fquot (Fin x) PosInf = Fin 0"
| "fquot (Fin x) NegInf = Fin 0"
| "fquot PosInf PosInf = NaN"
| "fquot PosInf NegInf = NaN"
| "fquot NegInf PosInf = NaN"
| "fquot NegInf NegInf = NaN"

text \<open>\<open>a / b\<close> on floats: \<open>ZeroDivisionError\<close> when the divisor equals zero.\<close>

definition truediv :: "pyfloat \<Rightarrow> pyfloat \<Rightarrow> exn + pyfloat" where
  "truediv a b =
     (if b = Fin 0 then Inl (Exn ''ZeroDivisionError'' ''float division by zero'' None)
      else Inr (fquot a b))"

text \<open>
  The float of an int, as an operation between a float and an int takes it: the
  nearest double. (For an int beyond the largest double Python raises
  \<open>OverflowError\<close>; the ints converted here are the run counters of the aggregator,
  which are taken to be within it, and the conversion gives the infinity there.)
\<close>

definition float_of_int :: "int \<Rightarrow> pyfloat" where
  "float_of_int n = to_float (of_int n)"

text \<open>
  \<open>a / b\<close> on ints, the divisor not zero: the double nearest to the quotient. (For a
  quotient beyond the largest double Python raises \<open>OverflowError\<close>; it is the
  infinity here, under the same proviso as for \<open>float_of_int\<close>.)
\<close>

definition int_truediv :: "int \<Rightarrow> int \<Rightarrow> pyfloat" where
  "int_truediv a b = to_float (of_int a / of_int b)"

text \<open>
  \<open>round(x, 2)\<close>: the exact value of the float rounded to two decimals, a tie going
  to the even one, and then the double nearest to that decimal; an infinity or a NaN
  is returned as it is.
\<close>

fun round2 :: "pyfloat \<Rightarrow> pyfloat" where
  "round2 (Fin x) = to_float (of_int (round_half_even (x * 100)) / 100)"
| "round2 a = a"

subsection \<open>Values\<close>

text \<open>
  Values that travel between the agent service, the JSON codec and the tool handlers.
  \<open>PObject\<close> stands for any Python object that is neither one of the JSON-shaped
  kinds nor a mapping (its string is the name of its type).
\<close>

datatype pyval =
    PNone
  | PBool bool
  | PInt int
  | PFloat pyfloat
  | PStr string
  | PList "pyval list"
  | PDict "(string \<times> pyval) list"
  | PObject string

section \<open>tools.py: tool definition models\<close>

text \<open>\<open>class ToolParameter(BaseModel)\<close>: name, type, description, required, enum, default.\<close>

record ToolParameter =
  tp_name :: string
  tp_type :: string
  tp_description :: string
  tp_required :: bool
  tp_enum :: "string list option"
  tp_default :: "pyval option"

text \<open>\<open>class ToolDefinition(BaseModel)\<close>: name, description, parameters.\<close>

record ToolDefinition =
  td_name :: string
  td_description :: string
  td_parameters :: "ToolParameter list"

text \<open>
  What \<open>inspect.signature\<close> reports for one formal parameter: its name, its annotation
  (\<open>AnnEmpty\<close> is \<open>inspect.Parameter.empty\<close>; \<open>AnnOther\<close> is any annotation other than
  the classes \<open>int\<close>, \<open>float\<close>, \<open>bool\<close>, for instance \<open>str\<close> or \<open>Optional[str]\<close>) and its
  default (\<open>None\<close> is \<open>inspect.Parameter.empty\<close>, \<open>Some PNone\<close> is a default of \<open>None\<close>).
\<close>

datatype annotation = AnnEmpty | AnnInt | AnnFloat | AnnBool | AnnOther string

record formal_param =
  fp_name :: string
  fp_annotation :: annotation
  fp_default :: "pyval option"

text \<open>
  A Python callable as the registry sees it: \<open>__name__\<close>; the name the interpreter
  prints for it in the error of a bad call; the parameters of its signature in order;
  what \<open>bool(func)\<close> gives (\<open>Inr True\<close> for every function object; a callable object
  may define \<open>__bool__\<close> or \<open>__len__\<close>, which may answer false or raise); and what
  calling it with keyword arguments does (a return value or a raised exception).
\<close>

record pyfunc =
  fn_name :: string
  fn_qualname :: string
  fn_params :: "formal_param list"
  fn_truth :: "exn + bool"
  fn_call :: "(string \<times> pyval) list \<Rightarrow> exn + pyval"

section \<open>tools.py: ToolRegistry\<close>

text \<open>
  \<open>_tools\<close> and \<open>_schemas\<close> are Python dicts; a dict keeps insertion order and an
  assignment to an existing key keeps that key's position, which is what
  \<open>AList.update\<close> does on an association list.
\<close>

record ToolRegistry =
  tools :: "(string \<times> pyfunc) list"
  schemas :: "(string \<times> ToolDefinition) list"

text \<open>\<open>ToolRegistry.__init__\<close>\<close>

definition init_registry :: ToolRegistry where
  "init_registry = \<lparr>tools = [], schemas = []\<rparr>"

text \<open>The type tag chosen in \<open>_infer_parameters\<close>: \<open>"string"\<close> unless the annotation is
  present and equals \<open>int\<close>, \<open>float\<close> or \<open>bool\<close>.\<close>

fun infer_type :: "annotation \<Rightarrow> string" where
  "infer_type AnnEmpty = ''string''"
| "infer_type AnnInt = ''integer''"
| "infer_type AnnFloat = ''number''"
| "infer_type AnnBool = ''boolean''"
| "infer_type (AnnOther a) = ''string''"

text \<open>The body of the loop of \<open>_infer_parameters\<close> for one parameter that is not skipped.\<close>

definition infer_parameter :: "formal_param \<Rightarrow> ToolParameter" where
  "infer_parameter p =
     \<lparr>tp_name = fp_name p,
      tp_type = infer_type (fp_annotation p),
      tp_description = ''Parameter '' @ fp_name p,
      tp_required = (fp_default p = None),
      tp_enum = None,
      tp_default = None\<rparr>"

text \<open>\<open>ToolRegistry._infer_parameters\<close>: the loop over \<open>sig.parameters.items()\<close>, with
  \<open>continue\<close> on a parameter named \<open>self\<close>.\<close>

fun infer_parameters_loop :: "formal_param list \<Rightarrow> ToolParameter list \<Rightarrow> ToolParameter list" where
  "infer_parameters_loop [] parameters = parameters"
| "infer_parameters_loop (p # ps) parameters =
     (if fp_name p = ''self'' then infer_parameters_loop ps parameters
      else infer_parameters_loop ps (parameters @ [infer_parameter p]))"

definition infer_parameters :: "pyfunc \<Rightarrow> ToolParameter list" where
  "infer_parameters func = infer_parameters_loop (fn_params func) []"

text \<open>
  \<open>ToolRegistry.register(func, description, parameters=None)\<close>. The method returns
  \<open>func\<close>; the model returns the registry after the two dict assignments.
\<close>

definition register :: "pyfunc \<Rightarrow> string \<Rightarrow> ToolParameter list option \<Rightarrow> ToolRegistry \<Rightarrow> ToolRegistry" where
  "register func description parameters reg =
     (let name = fn_name func;
          parameters' = (case parameters of None \<Rightarrow> infer_parameters func | Some ps \<Rightarrow> ps);
          schema = \<lparr>td_name = name, td_description = description, td_parameters = parameters'\<rparr>
      in reg\<lparr>tools := AList.update name func (tools reg),
              schemas := AList.update name schema (schemas reg)\<rparr>)"

text \<open>
  \<open>get_tool\<close> and \<open>get_schema\<close> are \<open>dict.get\<close>. They are written with the registry
  passed through, as the methods receive \<open>self\<close>, so that what a lookup leaves behind
  can be stated.
\<close>

definition get_tool :: "ToolRegistry \<Rightarrow> string \<Rightarrow> pyfunc option \<times> ToolRegistry" where
  "get_tool reg name = (map_of (tools reg) name, reg)"

definition get_schema :: "ToolRegistry \<Rightarrow> string \<Rightarrow> ToolDefinition option \<times> ToolRegistry" where
  "get_schema reg name = (map_of (schemas reg) name, reg)"

text \<open>The name of a value's type, as \<open>type(v).__name__\<close> gives it.\<close>

fun type_name :: "pyval \<Rightarrow> string" where
  "type_name PNone = ''NoneType''"
| "type_name (PBool b) = ''bool''"
| "type_name (PInt i) = ''int''"
| "type_name (PFloat x) = ''float''"
| "type_name (PStr s) = ''str''"
| "type_name (PList xs) = ''list''"
| "type_name (PDict kv) = ''dict''"
| "type_name (PObject c) = c"

text \<open>
  \<open>tool(**arguments)\<close>: unpacking needs a mapping; anything else raises the
  interpreter's \<open>TypeError\<close>
  \<open><name>() argument after ** must be a mapping, not <type>\<close> (the type name cut to
  200 characters) at the call. A mismatch between the keys and the formal parameters
  is the callee's \<open>TypeError\<close> and belongs to \<open>fn_call\<close>.
\<close>

definition call_kwargs :: "pyfunc \<Rightarrow> pyval \<Rightarrow> exn + pyval" where
  "call_kwargs tool arguments =
     (case arguments of
        PDict kv \<Rightarrow> fn_call tool kv
      | _ \<Rightarrow> Inl (Exn ''TypeError''
                 (fn_qualname tool @ ''() argument after ** must be a mapping, not ''
                  @ take 200 (type_name arguments)) None))"

text \<open>
  \<open>ToolRegistry.execute_tool\<close>. The guard is \<open>if not tool\<close>, a test of the truth
  value: it raises \<open>ValueError\<close> when the lookup gave \<open>None\<close> and also when the
  registered callable is false, and an exception of \<open>bool(tool)\<close> leaves the method.
  The \<open>except\<close> clause logs and re-raises with a bare \<open>raise\<close>: the handler's
  exception leaves unchanged.
\<close>

definition execute_tool :: "ToolRegistry \<Rightarrow> string \<Rightarrow> pyval \<Rightarrow> exn + pyval" where
  "execute_tool reg name arguments =
     (case fst (get_tool reg name) of
        None \<Rightarrow> Inl (Exn ''ValueError'' (''Tool not found: '' @ name) None)
      | Some tool \<Rightarrow>
          (case fn_truth tool of
             Inl e \<Rightarrow> Inl e
           | Inr False \<Rightarrow> Inl (Exn ''ValueError'' (''Tool not found: '' @ name) None)
           | Inr True \<Rightarrow>
               (case call_kwargs tool arguments of
                  Inr result \<Rightarrow> Inr result
                | Inl e \<Rightarrow> Inl e)))"

text \<open>\<open>execute_tool_call\<close>: the module-level wrapper, here with the registry it reads
  (\<open>tool_registry\<close>) as an argument.\<close>

definition execute_tool_call :: "ToolRegistry \<Rightarrow> string \<Rightarrow> pyval \<Rightarrow> exn + pyval" where
  "execute_tool_call tool_registry tool_name arguments = execute_tool tool_registry tool_name arguments"

subsection \<open>Sequences of registrations\<close>

text \<open>A sequence of \<open>register\<close> calls, applied in order.\<close>

fun register_all ::
  "(pyfunc \<times> string \<times> ToolParameter list option) list \<Rightarrow> ToolRegistry \<Rightarrow> ToolRegistry" where
  "register_all [] reg = reg"
| "register_all ((func, description, parameters) # calls) reg =
     register_all calls (register func description parameters reg)"

text \<open>The two dicts of a registry agree: the same keys in the same order, and every
  schema stored under its own name.\<close>

definition consistent :: "ToolRegistry \<Rightarrow> bool" where
  "consistent reg \<longleftrightarrow>
     map fst (tools reg) = map fst (schemas reg)
     \<and> (\<forall>(k, s) \<in> set (schemas reg). td_name s = k)"

section \<open>agent.py: AgentMetrics\<close>

datatype AgentStatus =
    Agent_INITIALIZING | Agent_READY | Agent_RUNNING | Agent_COMPLETED | Agent_FAILED
  | Agent_CANCELLED

text \<open>The dataclass \<open>AgentMetrics\<close>. Python ints are unbounded.\<close>

record AgentMetrics =
  total_runs :: int
  successful_runs :: int
  failed_runs :: int
  total_tokens_used :: int
  average_response_time :: pyfloat
  tool_calls_made :: int

text \<open>\<open>AgentMetrics()\<close> with the field defaults.\<close>

definition init_metrics :: AgentMetrics where
  "init_metrics =
     \<lparr>total_runs = 0, successful_runs = 0, failed_runs = 0, total_tokens_used = 0,
      average_response_time = Fin 0, tool_calls_made = 0\<rparr>"

text \<open>
  \<open>AgentMetrics.record_run\<close>. The counters are updated in place before the average is
  recomputed as \<open>(average * (total_runs - 1) + duration) / total_runs\<close>, three float
  operations; the division raises \<open>ZeroDivisionError\<close> when the incremented
  \<open>total_runs\<close> is zero, and the aggregator then keeps the counter updates. The
  result is the raised exception, if any, and the aggregator as the call leaves it.
\<close>

definition record_run ::
  "bool \<Rightarrow> pyfloat \<Rightarrow> int \<Rightarrow> int \<Rightarrow> AgentMetrics \<Rightarrow> exn option \<times> AgentMetrics" where
  "record_run success duration tokens tool_calls m =
     (let m1 = m\<lparr>total_runs := total_runs m + 1\<rparr>;
          m2 = (if success then m1\<lparr>successful_runs := successful_runs m1 + 1\<rparr>
                else m1\<lparr>failed_runs := failed_runs m1 + 1\<rparr>);
          m3 = m2\<lparr>total_tokens_used := total_tokens_used m2 + tokens\<rparr>;
          m4 = m3\<lparr>tool_calls_made := tool_calls_made m3 + tool_calls\<rparr>
      in case truediv
                (fadd (fmul (average_response_time m4) (float_of_int (total_runs m4 - 1)))
                   duration)
                (float_of_int (total_runs m4)) of
           Inl e \<Rightarrow> (Some e, m4)
         | Inr average \<Rightarrow> (None, m4\<lparr>average_response_time := average\<rparr>))"

text \<open>The dict \<open>to_dict\<close> returns, one field per key.\<close>

record metrics_dict =
  md_total_runs :: int
  md_success_rate :: pyfloat
  md_total_tokens :: int
  md_avg_response_time_seconds :: pyfloat
  md_tool_calls :: int

definition to_dict :: "AgentMetrics \<Rightarrow> metrics_dict" where
  "to_dict m =
     \<lparr>md_total_runs = total_runs m,
      md_success_rate = int_truediv (successful_runs m) (max (total_runs m) 1),
      md_total_tokens = total_tokens_used m,
      md_avg_response_time_seconds = round2 (average_response_time m),
      md_tool_calls = tool_calls_made m\<rparr>"

section \<open>agent.py: the agent service as the orchestration code sees it\<close>

text \<open>\<open>RunStatus\<close> of the service's client library.\<close>

datatype RunStatus =
    QUEUED | IN_PROGRESS | REQUIRES_ACTION | CANCELLING | CANCELLED | FAILED | COMPLETED
  | EXPIRED

text \<open>One entry of \<open>run.required_action.submit_tool_outputs.tool_calls\<close>:
  \<open>tool_call.id\<close>, \<open>tool_call.function.name\<close>, \<open>tool_call.function.arguments\<close>.\<close>

record tool_call =
  tc_id :: string
  tc_name :: string
  tc_arguments :: string

text \<open>One entry of the \<open>tool_outputs\<close> list submitted back to the run: the keys
  \<open>"tool_call_id"\<close> and \<open>"output"\<close>.\<close>

record tool_output =
  tool_call_id :: string
  output_str :: string

text \<open>
  A run object returned by the service. \<open>required_action\<close> is \<open>None\<close> when the
  attribute is falsy, else the tool-call batch. The two expressions
  \<open>getattr(run, 'usage', {}).get('total_tokens', 0)\<close> and
  \<open>len(getattr(run, 'required_action', {}).get('tool_calls', []))\<close> depend on the
  client library's classes, which are not part of the repository: the run object
  carries what each evaluates to (a value, or the exception it raises).
\<close>

record run_obj =
  run_id :: string
  run_status :: RunStatus
  required_action :: "tool_call list option"
  run_total_tokens :: "exn + int"
  run_tool_calls_len :: "exn + int"

text \<open>A message content item has a \<open>text\<close> attribute (with \<open>text.value\<close>) or has none.\<close>

datatype content_part = TextContent string | NonTextContent

record ThreadMessage =
  msg_role :: string
  msg_content :: "content_part list"

text \<open>
  The remote service, scripted: what each call of the client answers. \<open>get_run\<close> and
  \<open>submit_tool_outputs\<close> answer by the number of earlier calls of the same kind;
  \<open>time_time\<close> is the clock, by the number of earlier readings.
\<close>

record service =
  get_client_raises :: "exn option"
  create_run_result :: "exn + run_obj"
  get_run_result :: "nat \<Rightarrow> exn + run_obj"
  submit_raises :: "nat \<Rightarrow> tool_output list \<Rightarrow> exn option"
  list_messages_result :: "exn + ThreadMessage list"
  time_time :: "nat \<Rightarrow> pyfloat"

text \<open>The effects of the orchestration code on the outside: status fetches made, sleeps
  taken, output lists submitted (one per \<open>submit_tool_outputs\<close> call), clock readings.\<close>

record world =
  fetches :: nat
  sleeps :: nat
  submitted :: "tool_output list list"
  clock_reads :: nat

definition init_world :: world where
  "init_world = \<lparr>fetches = 0, sleeps = 0, submitted = [], clock_reads = 0\<rparr>"

text \<open>\<open>json.loads\<close> and \<open>json.dumps\<close> of the standard library, taken as parameters.\<close>

record json_lib =
  loads :: "string \<Rightarrow> exn + pyval"
  dumps :: "pyval \<Rightarrow> exn + string"

text \<open>Of \<open>FoundryConfig\<close>, the one field the orchestration reads.\<close>

record FoundryConfig =
  agent_timeout_seconds :: int

section \<open>agent.py: FoundryAgent._handle_tool_calls\<close>

text \<open>The \<open>try\<close> block of the loop body: parse, execute, serialise.\<close>

definition invoke_tool :: "json_lib \<Rightarrow> ToolRegistry \<Rightarrow> tool_call \<Rightarrow> exn + tool_output" where
  "invoke_tool js reg tc =
     (case loads js (tc_arguments tc) of
        Inl e \<Rightarrow> Inl e
      | Inr arguments \<Rightarrow>
          (case execute_tool_call reg (tc_name tc) arguments of
             Inl e \<Rightarrow> Inl e
           | Inr result \<Rightarrow>
               (case dumps js result of
                  Inl e \<Rightarrow> Inl e
                | Inr s \<Rightarrow> Inr \<lparr>tool_call_id = tc_id tc, output_str = s\<rparr>)))"

text \<open>The dict \<open>{"error": str(e)}\<close>.\<close>

definition error_payload :: "exn \<Rightarrow> pyval" where
  "error_payload e = PDict [(''error'', PStr (exn_msg e))]"

text \<open>The whole loop body: \<open>except Exception as e\<close> turns a failure of the \<open>try\<close> block
  into an error output; an exception of \<open>json.dumps\<close> inside the handler would leave
  the loop.\<close>

definition tool_output_for :: "json_lib \<Rightarrow> ToolRegistry \<Rightarrow> tool_call \<Rightarrow> exn + tool_output" where
  "tool_output_for js reg tc =
     (case invoke_tool js reg tc of
        Inr out \<Rightarrow> Inr out
      | Inl e \<Rightarrow>
          (case dumps js (error_payload e) of
             Inl e' \<Rightarrow> Inl e'
           | Inr s \<Rightarrow> Inr \<lparr>tool_call_id = tc_id tc, output_str = s\<rparr>))"

text \<open>\<open>for tool_call in tool_calls\<close>, appending to \<open>tool_outputs\<close>.\<close>

fun tool_calls_loop ::
  "json_lib \<Rightarrow> ToolRegistry \<Rightarrow> tool_call list \<Rightarrow> tool_output list \<Rightarrow> exn + tool_output list" where
  "tool_calls_loop js reg [] tool_outputs = Inr tool_outputs"
| "tool_calls_loop js reg (tc # tcs) tool_outputs =
     (case tool_output_for js reg tc of
        Inl e \<Rightarrow> Inl e
      | Inr out \<Rightarrow> tool_calls_loop js reg tcs (tool_outputs @ [out]))"

text \<open>\<open>client.agents.submit_tool_outputs\<close>: the call is made, and may raise.\<close>

definition submit_tool_outputs :: "service \<Rightarrow> tool_output list \<Rightarrow> world \<Rightarrow> exn option \<times> world" where
  "submit_tool_outputs svc outs w =
     (submit_raises svc (length (submitted w)) outs, w\<lparr>submitted := submitted w @ [outs]\<rparr>)"

text \<open>\<open>_handle_tool_calls\<close>: returns at once when \<open>run.required_action\<close> is falsy.\<close>

definition handle_tool_calls ::
  "service \<Rightarrow> json_lib \<Rightarrow> ToolRegistry \<Rightarrow> run_obj \<Rightarrow> world \<Rightarrow> exn option \<times> world" where
  "handle_tool_calls svc js reg run w =
     (case required_action run of
        None \<Rightarrow> (None, w)
      | Some tool_calls \<Rightarrow>
          (case tool_calls_loop js reg tool_calls [] of
             Inl e \<Rightarrow> (Some e, w)
           | Inr tool_outputs \<Rightarrow> submit_tool_outputs svc tool_outputs w))"

section \<open>agent.py: FoundryAgent._poll_run_completion\<close>

text \<open>The local constant \<open>poll_interval = 1  # seconds\<close>.\<close>

definition poll_interval :: int where
  "poll_interval = 1"

text \<open>Decimal text of an int, for the f-string of the timeout message.\<close>

fun str_nat :: "nat \<Rightarrow> string" where
  "str_nat n =
     (if n < 10 then [''0123456789'' ! n]
      else str_nat (n div 10) @ [''0123456789'' ! (n mod 10)])"

definition str_int :: "int \<Rightarrow> string" where
  "str_int i = (if i < 0 then ''-'' @ str_nat (nat (- i)) else str_nat (nat i))"

text \<open>
  The \<open>while elapsed < timeout\<close> loop. Each round fetches the run, returns it when its
  status is one of \<open>COMPLETED\<close>, \<open>FAILED\<close>, \<open>CANCELLED\<close>, handles the tool calls when the
  status is \<open>REQUIRES_ACTION\<close>, sleeps one interval and adds it to \<open>elapsed\<close>. A failed
  fetch or a failure of \<open>_handle_tool_calls\<close> leaves the loop as the exception.
  Falling out of the loop raises \<open>TimeoutError\<close>.
\<close>

function poll_loop ::
  "service \<Rightarrow> json_lib \<Rightarrow> ToolRegistry \<Rightarrow> int \<Rightarrow> int \<Rightarrow> world \<Rightarrow> (exn + run_obj) \<times> world" where
  "poll_loop svc js reg timeout elapsed w =
     (if elapsed < timeout then
        (case get_run_result svc (fetches w) of
           Inl e \<Rightarrow> (Inl e, w\<lparr>fetches := Suc (fetches w)\<rparr>)
         | Inr run \<Rightarrow>
             (if run_status run \<in> set [COMPLETED, FAILED, CANCELLED]
              then (Inr run, w\<lparr>fetches := Suc (fetches w)\<rparr>)
              else
                (case (if run_status run = REQUIRES_ACTION
                       then handle_tool_calls svc js reg run (w\<lparr>fetches := Suc (fetches w)\<rparr>)
                       else (None, w\<lparr>fetches := Suc (fetches w)\<rparr>)) of
                   (Some e, w2) \<Rightarrow> (Inl e, w2)
                 | (None, w2) \<Rightarrow>
                     poll_loop svc js reg timeout (elapsed + poll_interval)
                       (w2\<lparr>sleeps := Suc (sleeps w2)\<rparr>))))
      else (Inl (Exn ''TimeoutError''
                  (''Run timed out after '' @ str_int timeout @ '' seconds'') None), w))"
  by pat_completeness auto
termination
  by (relation "measure (\<lambda>(svc, js, reg, timeout, elapsed, w). nat (timeout - elapsed))")
     (auto simp: poll_interval_def)

declare poll_loop.simps [simp del]

text \<open>\<open>_poll_run_completion\<close>: \<open>timeout\<close> from the configuration, \<open>elapsed = 0\<close>.\<close>

definition poll_run_completion ::
  "service \<Rightarrow> json_lib \<Rightarrow> ToolRegistry \<Rightarrow> FoundryConfig \<Rightarrow> world \<Rightarrow> (exn + run_obj) \<times> world" where
  "poll_run_completion svc js reg cfg w = poll_loop svc js reg (agent_timeout_seconds cfg) 0 w"

section \<open>agent.py: FoundryAgent._extract_response\<close>

text \<open>\<open>sep.join(parts)\<close>\<close>

fun join :: "string \<Rightarrow> string list \<Rightarrow> string" where
  "join sep [] = []"
| "join sep [x] = x"
| "join sep (x # y # ys) = x @ sep @ join sep (y # ys)"

definition newline :: string where
  "newline = [CHR 0x0A]"

text \<open>The loop over \<open>message.content\<close>, keeping \<open>content.text.value\<close> of the items that
  have a \<open>text\<close> attribute.\<close>

fun content_parts_loop :: "content_part list \<Rightarrow> string list \<Rightarrow> string list" where
  "content_parts_loop [] content_parts = content_parts"
| "content_parts_loop (TextContent v # cs) content_parts =
     content_parts_loop cs (content_parts @ [v])"
| "content_parts_loop (NonTextContent # cs) content_parts =
     content_parts_loop cs content_parts"

text \<open>\<open>_extract_response\<close>: \<open>list_messages(order="desc", limit=1)\<close>, then the first
  element of \<open>messages.data\<close> when there is one.\<close>

definition extract_response :: "service \<Rightarrow> exn + string" where
  "extract_response svc =
     (case list_messages_result svc of
        Inl e \<Rightarrow> Inl e
      | Inr data \<Rightarrow>
          (case data of
             [] \<Rightarrow> Inr ''No response generated''
           | message # rest \<Rightarrow>
               (if msg_role message = ''assistant''
                then Inr (join newline (content_parts_loop (msg_content message) []))
                else Inr ''No response generated'')))"

section \<open>agent.py: FoundryAgent.run\<close>

text \<open>Of the agent object: the configuration, the created agent's id (\<open>None\<close> before
  \<open>create\<close>), the status and the metrics.\<close>

record FoundryAgent =
  config :: FoundryConfig
  agent :: "string option"
  status :: AgentStatus
  metrics :: AgentMetrics

text \<open>The dict \<open>run\<close> returns, one field per key.\<close>

record run_result =
  rr_run_id :: string
  rr_status :: RunStatus
  rr_response :: string
  rr_duration_seconds :: pyfloat
  rr_tokens_used :: int
  rr_metrics :: metrics_dict

text \<open>\<open>time.time()\<close>\<close>

definition read_clock :: "service \<Rightarrow> world \<Rightarrow> pyfloat \<times> world" where
  "read_clock svc w = (time_time svc (clock_reads w), w\<lparr>clock_reads := Suc (clock_reads w)\<rparr>)"

text \<open>
  The \<open>try\<close> block of \<open>run\<close>, statement by statement; the first exception ends it.
  \<open>record_run\<close> mutates the metrics even when it raises.
\<close>

definition run_try ::
  "service \<Rightarrow> json_lib \<Rightarrow> ToolRegistry \<Rightarrow> pyfloat \<Rightarrow> FoundryAgent \<Rightarrow> world
     \<Rightarrow> (exn + run_result) \<times> FoundryAgent \<times> world" where
  "run_try svc js reg start_time self w =
     (case get_client_raises svc of
        Some e \<Rightarrow> (Inl e, self, w)
      | None \<Rightarrow>
     (case create_run_result svc of
        Inl e \<Rightarrow> (Inl e, self, w)
      | Inr created \<Rightarrow>
     (case poll_run_completion svc js reg (config self) w of
        (Inl e, w1) \<Rightarrow> (Inl e, self, w1)
      | (Inr run, w1) \<Rightarrow>
     (case read_clock svc w1 of (t, w2) \<Rightarrow>
     (case extract_response svc of
        Inl e \<Rightarrow> (Inl e, self, w2)
      | Inr response \<Rightarrow>
     (case run_total_tokens run of
        Inl e \<Rightarrow> (Inl e, self, w2)
      | Inr tokens_used \<Rightarrow>
     (case run_tool_calls_len run of
        Inl e \<Rightarrow> (Inl e, self, w2)
      | Inr tool_calls \<Rightarrow>
     (case record_run True (fsub t start_time) tokens_used tool_calls (metrics self) of
        (Some e, m) \<Rightarrow> (Inl e, self\<lparr>metrics := m\<rparr>, w2)
      | (None, m) \<Rightarrow>
          (Inr \<lparr>rr_run_id = run_id run, rr_status = run_status run, rr_response = response,
                rr_duration_seconds = fsub t start_time, rr_tokens_used = tokens_used,
                rr_metrics = to_dict m\<rparr>,
           self\<lparr>metrics := m, status := Agent_COMPLETED\<rparr>, w2)))))))))"

text \<open>
  \<open>run\<close>: the guard on \<open>self.agent\<close> stands before the \<open>try\<close>; the \<open>except Exception\<close>
  clause reads the clock, records a failed run, sets the status and re-raises. An
  exception of \<open>record_run\<close> inside the clause replaces the one being handled.
  The thread id and the instructions only travel to the service.
\<close>

definition run ::
  "service \<Rightarrow> json_lib \<Rightarrow> ToolRegistry \<Rightarrow> FoundryAgent \<Rightarrow> world
     \<Rightarrow> (exn + run_result) \<times> FoundryAgent \<times> world" where
  "run svc js reg self w =
     (case agent self of
        None \<Rightarrow> (Inl (Exn ''RuntimeError'' ''Agent not created. Call create() first.'' None), self, w)
      | Some agent_id \<Rightarrow>
     (case read_clock svc w of (start_time, w1) \<Rightarrow>
     (case run_try svc js reg start_time (self\<lparr>status := Agent_RUNNING\<rparr>) w1 of
        (Inr result, self2, w2) \<Rightarrow> (Inr result, self2, w2)
      | (Inl e, self2, w2) \<Rightarrow>
     (case read_clock svc w2 of (t, w3) \<Rightarrow>
     (case record_run False (fsub t start_time) 0 0 (metrics self2) of
        (Some e', m) \<Rightarrow> (Inl e', self2\<lparr>metrics := m\<rparr>, w3)
      | (None, m) \<Rightarrow> (Inl e, self2\<lparr>metrics := m, status := Agent_FAILED\<rparr>, w3))))))"

section \<open>Concrete inputs\<close>

text \<open>Three handlers: one returns its keyword arguments as a dict, one always raises,
  and one shares the first one's name.\<close>

definition echo_tool :: pyfunc where
  "echo_tool =
     \<lparr>fn_name = ''echo'', fn_qualname = ''echo'',
      fn_params = [\<lparr>fp_name = ''text'', fp_annotation = AnnOther ''str'', fp_default = None\<rparr>,
                   \<lparr>fp_name = ''times'', fp_annotation = AnnInt, fp_default = Some (PInt 1)\<rparr>],
      fn_truth = Inr True,
      fn_call = (\<lambda>kv. Inr (PDict kv))\<rparr>"

definition boom_tool :: pyfunc where
  "boom_tool =
     \<lparr>fn_name = ''boom'', fn_qualname = ''boom'', fn_params = [], fn_truth = Inr True,
      fn_call = (\<lambda>kv. Inl (Exn ''KeyError'' ''missing'' None))\<rparr>"

definition echo_again :: pyfunc where
  "echo_again =
     \<lparr>fn_name = ''echo'', fn_qualname = ''echo'', fn_params = [], fn_truth = Inr True,
      fn_call = (\<lambda>kv. Inr (PInt 2))\<rparr>"

definition example_registry :: ToolRegistry where
  "example_registry =
     register boom_tool ''always fails'' None
       (register echo_tool ''returns its arguments'' None init_registry)"

definition once_registered :: ToolRegistry where
  "once_registered = register echo_tool ''first'' (Some []) init_registry"

definition twice_registered :: ToolRegistry where
  "twice_registered = register echo_again ''second'' (Some []) once_registered"

definition example_calls :: "(pyfunc \<times> string \<times> ToolParameter list option) list" where
  "example_calls =
     [(echo_tool, ''returns its arguments'', None),
      (boom_tool, ''always fails'', None),
      (echo_again, ''a second echo'', Some [])]"

text \<open>A small stand-in for the JSON codec: it reads the empty object only and writes
  strings, the empty dict and one-entry dicts of a string.\<close>

fun example_dumps :: "pyval \<Rightarrow> exn + string" where
  "example_dumps (PStr s) = Inr s"
| "example_dumps (PDict []) = Inr ''{}''"
| "example_dumps (PDict [(k, PStr s)]) = Inr (''{'' @ k @ '': '' @ s @ ''}'')"
| "example_dumps v = Inl (Exn ''TypeError'' ''Object is not JSON serializable'' None)"

definition example_json :: json_lib where
  "example_json =
     \<lparr>loads = (\<lambda>s. if s = ''{}'' then Inr (PDict [])
                    else Inl (Exn ''JSONDecodeError'' ''Expecting value'' None)),
      dumps = example_dumps\<rparr>"

text \<open>Runs, a batch of four tool calls (one that succeeds, an unknown tool, a handler
  that raises, arguments that do not parse) and messages.\<close>

definition in_progress_run :: run_obj where
  "in_progress_run =
     \<lparr>run_id = ''run_1'', run_status = IN_PROGRESS, required_action = None,
      run_total_tokens = Inr 0, run_tool_calls_len = Inr 0\<rparr>"

definition completed_run :: run_obj where
  "completed_run = in_progress_run\<lparr>run_status := COMPLETED, run_total_tokens := Inr 42\<rparr>"

definition tool_batch :: "tool_call list" where
  "tool_batch =
     [\<lparr>tc_id = ''call_1'', tc_name = ''echo'', tc_arguments = ''{}''\<rparr>,
      \<lparr>tc_id = ''call_2'', tc_name = ''nope'', tc_arguments = ''{}''\<rparr>,
      \<lparr>tc_id = ''call_3'', tc_name = ''boom'', tc_arguments = ''{}''\<rparr>,
      \<lparr>tc_id = ''call_4'', tc_name = ''echo'', tc_arguments = ''not json''\<rparr>]"

definition action_run :: run_obj where
  "action_run =
     in_progress_run\<lparr>run_status := REQUIRES_ACTION, required_action := Some tool_batch\<rparr>"

definition assistant_message :: ThreadMessage where
  "assistant_message =
     \<lparr>msg_role = ''assistant'',
      msg_content = [TextContent ''Hello'', NonTextContent, TextContent ''World'']\<rparr>"

definition user_message :: ThreadMessage where
  "user_message = \<lparr>msg_role = ''user'', msg_content = [TextContent ''Hi'']\<rparr>"

text \<open>A service whose run asks for tools on the first fetch and is in progress ever
  after; one whose run is completed at once; one whose status fetch fails. The clock
  reads 0, 1, 2, ...\<close>

definition idle_service :: service where
  "idle_service =
     \<lparr>get_client_raises = None,
      create_run_result = Inr in_progress_run,
      get_run_result = (\<lambda>k. Inr (if k = 0 then action_run else in_progress_run)),
      submit_raises = (\<lambda>k outs. None),
      list_messages_result = Inr [assistant_message],
      time_time = (\<lambda>k. Fin (of_nat k))\<rparr>"

definition done_service :: service where
  "done_service = idle_service\<lparr>get_run_result := (\<lambda>k. Inr completed_run)\<rparr>"


definition user_only_service :: service where
  "user_only_service = done_service\<lparr>list_messages_result := Inr [user_message]\<rparr>"

definition example_agent :: FoundryAgent where
  "example_agent =
     \<lparr>config = \<lparr>agent_timeout_seconds = 10\<rparr>, agent = Some ''agent_1'',
      status = Agent_READY, metrics = init_metrics\<rparr>"

text \<open>The floats that the literals \<open>0.1\<close>, \<open>0.2\<close> and \<open>0.3\<close> denote, and the
  aggregator after successful runs of these three durations.\<close>

definition tenth :: pyfloat where
  "tenth = Fin (3602879701896397 / 2 ^ 55)"

definition two_tenths :: pyfloat where
  "two_tenths = Fin (3602879701896397 / 2 ^ 54)"

definition three_tenths :: pyfloat where
  "three_tenths = Fin (5404319552844595 / 2 ^ 54)"

definition after_first :: AgentMetrics where
  "after_first = snd (record_run True tenth 0 0 init_metrics)"

definition after_second :: AgentMetrics where
  "after_second = snd (record_run True two_tenths 0 0 after_first)"

definition after_third :: AgentMetrics where
  "after_third = snd (record_run True three_tenths 0 0 after_second)"

section \<open>Properties of the tool registry\<close>

lemma map_of_update_same: "map_of (AList.update k v al) k = Some v"
  by (simp add: update_conv')

lemma map_of_update_other: "k' \<noteq> k \<Longrightarrow> map_of (AList.update k v al) k' = map_of al k'"
  by (simp add: update_conv')

lemma get_schema_register_same:
  "fst (get_schema (register func description parameters reg) (fn_name func)) =
     Some \<lparr>td_name = fn_name func, td_description = description,
           td_parameters = (case parameters of None \<Rightarrow> infer_parameters func | Some ps \<Rightarrow> ps)\<rparr>"
  by (simp add: get_schema_def register_def Let_def map_of_update_same)

lemma get_tool_register_same:
  "fst (get_tool (register func description parameters reg) (fn_name func)) = Some func"
  by (simp add: get_tool_def register_def Let_def map_of_update_same)

lemma get_tool_register_other:
  "n \<noteq> fn_name func \<Longrightarrow>
   fst (get_tool (register func description parameters reg) n) = fst (get_tool reg n)"
  by (simp add: get_tool_def register_def Let_def map_of_update_other)

lemma get_schema_register_other:
  "n \<noteq> fn_name func \<Longrightarrow>
   fst (get_schema (register func description parameters reg) n) = fst (get_schema reg n)"
  by (simp add: get_schema_def register_def Let_def map_of_update_other)

lemma tools_keys_register:
  "map fst (tools (register func description parameters reg)) =
     (if fn_name func \<in> set (map fst (tools reg)) then map fst (tools reg)
      else map fst (tools reg) @ [fn_name func])"
  by (simp add: register_def Let_def update_keys)

lemma schemas_keys_register:
  "map fst (schemas (register func description parameters reg)) =
     (if fn_name func \<in> set (map fst (schemas reg)) then map fst (schemas reg)
      else map fst (schemas reg) @ [fn_name func])"
  by (simp add: register_def Let_def update_keys)

lemma get_tool_Some_key: "fst (get_tool reg n) = Some t \<Longrightarrow> n \<in> set (map fst (tools reg))"
  by (auto simp: get_tool_def dest: map_of_SomeD intro: rev_image_eqI)

lemma get_schema_Some_key:
  "fst (get_schema reg n) = Some t \<Longrightarrow> n \<in> set (map fst (schemas reg))"
  by (auto simp: get_schema_def dest: map_of_SomeD intro: rev_image_eqI)

lemma example_registry_lookups:
  "fst (get_tool example_registry ''echo'') = Some echo_tool"
  "fst (get_tool example_registry ''boom'') = Some boom_tool"
  "fst (get_tool example_registry ''nope'') = None"
  by (simp_all add: example_registry_def register_def Let_def init_registry_def get_tool_def
        boom_tool_def echo_tool_def)

subsection \<open>Registering a name twice\<close>

text \<open>
  C2, as stated: a second \<open>register\<close> under a registered name signals
  \<open>DuplicateToolError\<close> and leaves the first handler and schema in place.
  \<open>register\<close> has no check for an existing key and raises nothing. After \<open>echo_tool\<close>
  is registered with description \<open>first\<close> and then \<open>echo_again\<close>, of the same name, with
  description \<open>second\<close>, the lookups give the second handler and the second schema.
\<close>

theorem register_duplicate_counterexample:
  "fst (get_tool once_registered ''echo'') = Some echo_tool
   \<and> fst (get_schema once_registered ''echo'')
       = Some \<lparr>td_name = ''echo'', td_description = ''first'', td_parameters = []\<rparr>
   \<and> fst (get_tool twice_registered ''echo'') = Some echo_again
   \<and> fst (get_schema twice_registered ''echo'')
       = Some \<lparr>td_name = ''echo'', td_description = ''second'', td_parameters = []\<rparr>
   \<and> fn_call echo_tool [] = Inr (PDict [])
   \<and> fn_call echo_again [] = Inr (PInt 2)"
  by (simp add: twice_registered_def once_registered_def register_def init_registry_def
        get_tool_def get_schema_def echo_tool_def echo_again_def Let_def)

text \<open>
  C2, amended: for every registry and every name already registered, a second
  \<open>register\<close> under that name signals nothing and replaces the name's handler and
  schema by the new ones (the last write wins); the name keeps its place in the
  registration order and every other name keeps its handler and schema.
\<close>

theorem register_existing_name_overwrites:
  assumes "fst (get_tool reg (fn_name func)) = Some old_tool"
      and "fst (get_schema reg (fn_name func)) = Some old_schema"
  shows "fst (get_tool (register func description parameters reg) (fn_name func)) = Some func
       \<and> fst (get_schema (register func description parameters reg) (fn_name func))
           = Some \<lparr>td_name = fn_name func, td_description = description,
                   td_parameters =
                     (case parameters of None \<Rightarrow> infer_parameters func | Some ps \<Rightarrow> ps)\<rparr>
       \<and> map fst (tools (register func description parameters reg)) = map fst (tools reg)
       \<and> map fst (schemas (register func description parameters reg)) = map fst (schemas reg)
       \<and> (\<forall>n. n \<noteq> fn_name func \<longrightarrow>
             fst (get_tool (register func description parameters reg) n) = fst (get_tool reg n)
           \<and> fst (get_schema (register func description parameters reg) n)
               = fst (get_schema reg n))"
  using get_tool_Some_key [OF assms(1)] get_schema_Some_key [OF assms(2)]
  by (simp add: get_tool_register_same get_schema_register_same tools_keys_register
        schemas_keys_register get_tool_register_other get_schema_register_other)

theorem register_existing_name_overwrites_witness:
  "fst (get_tool once_registered (fn_name echo_again)) = Some echo_tool
   \<and> fst (get_tool (register echo_again ''second'' (Some []) once_registered) ''echo'')
       = Some echo_again
   \<and> map fst (tools (register echo_again ''second'' (Some []) once_registered)) = [''echo'']"
proof -
  have n: "fn_name echo_again = ''echo''" "fn_name echo_tool = ''echo''"
    by (simp_all add: echo_again_def echo_tool_def)
  have t: "fst (get_tool once_registered (fn_name echo_again)) = Some echo_tool"
    using get_tool_register_same [of echo_tool "''first''" "Some []" init_registry]
    by (simp add: once_registered_def n)
  have s: "fst (get_schema once_registered (fn_name echo_again))
             = Some \<lparr>td_name = ''echo'', td_description = ''first'', td_parameters = []\<rparr>"
    using get_schema_register_same [of echo_tool "''first''" "Some []" init_registry]
    by (simp add: once_registered_def n)
  have k: "map fst (tools once_registered) = [''echo'']"
    by (simp add: once_registered_def tools_keys_register init_registry_def n)
  show ?thesis
    using register_existing_name_overwrites [OF t s, of "''second''" "Some []"] t k
    by (simp add: n)
qed

subsection \<open>Executing a tool\<close>

text \<open>
  C3, as stated: a handler's exception leaves \<open>execute_tool\<close> as a
  \<open>ToolExecutionError\<close> wrapping the cause, and an unknown name signals
  \<open>ToolNotFoundError\<close>. The handler of \<open>boom\<close> raises \<open>KeyError\<close>; \<open>execute_tool\<close>
  raises that same \<open>KeyError\<close>, with no cause attached, and an unknown name raises
  a \<open>ValueError\<close>.
\<close>

theorem execute_tool_wrapping_counterexample:
  "fst (get_tool example_registry ''boom'') = Some boom_tool
   \<and> fn_truth boom_tool = Inr True
   \<and> fn_call boom_tool [] = Inl (Exn ''KeyError'' ''missing'' None)
   \<and> execute_tool example_registry ''boom'' (PDict []) = Inl (Exn ''KeyError'' ''missing'' None)
   \<and> exn_class (projl (execute_tool example_registry ''boom'' (PDict []))) \<noteq> ''ToolExecutionError''
   \<and> exn_cause (projl (execute_tool example_registry ''boom'' (PDict []))) = None
   \<and> fst (get_tool example_registry ''nope'') = None
   \<and> exn_class (projl (execute_tool example_registry ''nope'' (PDict []))) = ''ValueError''"
  by (simp add: example_registry_lookups execute_tool_def call_kwargs_def boom_tool_def)

text \<open>
  C3, amended: for every registered name whose callable is true in a boolean test (as
  every function object is) and keyword arguments its handler accepts, \<open>execute_tool\<close>
  returns the handler's own return value unchanged; for every name not in the
  registry it raises \<open>ValueError\<close> with the message \<open>Tool not found: <name>\<close>,
  whatever the arguments; and an exception of such a handler is raised again as it is
  (the same exception object, not a wrapper), not swallowed.
\<close>

theorem execute_tool_result:
  "(fst (get_tool reg name) = Some tool \<and> fn_truth tool = Inr True \<and> fn_call tool kv = Inr v
      \<longrightarrow> execute_tool reg name (PDict kv) = Inr v)
   \<and> (fst (get_tool reg name) = None
      \<longrightarrow> execute_tool reg name arguments
            = Inl (Exn ''ValueError'' (''Tool not found: '' @ name) None))
   \<and> (fst (get_tool reg name) = Some tool \<and> fn_truth tool = Inr True \<and> fn_call tool kv = Inl e
      \<longrightarrow> execute_tool reg name (PDict kv) = Inl e)"
  by (simp add: execute_tool_def call_kwargs_def)

theorem execute_tool_result_witness:
  "fst (get_tool example_registry ''echo'') = Some echo_tool
   \<and> fn_truth echo_tool = Inr True
   \<and> execute_tool example_registry ''echo'' (PDict [(''text'', PStr ''hi'')])
       = Inr (PDict [(''text'', PStr ''hi'')])
   \<and> execute_tool example_registry ''nope'' (PDict [])
       = Inl (Exn ''ValueError'' ''Tool not found: nope'' None)
   \<and> execute_tool example_registry ''boom'' (PDict []) = Inl (Exn ''KeyError'' ''missing'' None)"
proof -
  have t: "fn_truth echo_tool = Inr True" "fn_truth boom_tool = Inr True"
    by (simp_all add: echo_tool_def boom_tool_def)
  have d: "fn_call echo_tool [(''text'', PStr ''hi'')] = Inr (PDict [(''text'', PStr ''hi'')])"
    by (simp add: echo_tool_def)
  have e: "fn_call boom_tool [] = Inl (Exn ''KeyError'' ''missing'' None)"
    by (simp add: boom_tool_def)
  show ?thesis
    using execute_tool_result [where reg = example_registry and name = "''echo''"
            and tool = echo_tool and kv = "[(''text'', PStr ''hi'')]"
            and v = "PDict [(''text'', PStr ''hi'')]"]
          execute_tool_result [where reg = example_registry and name = "''nope''"
            and arguments = "PDict []"]
          execute_tool_result [where reg = example_registry and name = "''boom''"
            and tool = boom_tool and kv = "[]" and e = "Exn ''KeyError'' ''missing'' None"]
          example_registry_lookups t d e
    by simp
qed

text \<open>The guard tests the truth value, so a registered callable that is false counts
  as not found, and arguments that are not a mapping fail at the call.\<close>

lemma execute_tool_false_callable:
  "fst (get_tool reg name) = Some tool \<Longrightarrow> fn_truth tool = Inr False \<Longrightarrow>
   execute_tool reg name arguments
     = Inl (Exn ''ValueError'' (''Tool not found: '' @ name) None)"
  by (simp add: execute_tool_def)

lemma execute_tool_list_arguments:
  "execute_tool example_registry ''echo'' (PList [])
     = Inl (Exn ''TypeError'' ''echo() argument after ** must be a mapping, not list'' None)"
  by (simp add: execute_tool_def call_kwargs_def example_registry_lookups echo_tool_def)

subsection \<open>Inferred parameters\<close>

lemma infer_parameters_loop_eq:
  "infer_parameters_loop ps acc
     = acc @ map infer_parameter (filter (\<lambda>p. fp_name p \<noteq> ''self'') ps)"
  by (induction ps arbitrary: acc) simp_all

lemma infer_parameters_eq:
  "infer_parameters func
     = map infer_parameter (filter (\<lambda>p. fp_name p \<noteq> ''self'') (fn_params func))"
  by (simp add: infer_parameters_def infer_parameters_loop_eq)

text \<open>
  C9: a handler registered without a parameter list gets a schema with one parameter
  per formal parameter other than \<open>self\<close>, in signature order and under the same name;
  the type tag is \<open>integer\<close> for an \<open>int\<close> annotation, \<open>number\<close> for \<open>float\<close>, \<open>boolean\<close>
  for \<open>bool\<close> and \<open>string\<close> for any other or no annotation; the parameter is required
  exactly when the formal parameter has no default.
\<close>

theorem register_infers_parameters:
  fixes func :: pyfunc
  defines "formals \<equiv> filter (\<lambda>p. fp_name p \<noteq> ''self'') (fn_params func)"
  shows "\<exists>schema.
           fst (get_schema (register func description None reg) (fn_name func)) = Some schema
         \<and> length (td_parameters schema) = length formals
         \<and> (\<forall>i < length formals.
              tp_name (td_parameters schema ! i) = fp_name (formals ! i)
            \<and> tp_type (td_parameters schema ! i) =
                (case fp_annotation (formals ! i) of
                   AnnInt \<Rightarrow> ''integer'' | AnnFloat \<Rightarrow> ''number'' | AnnBool \<Rightarrow> ''boolean''
                 | AnnEmpty \<Rightarrow> ''string'' | AnnOther a \<Rightarrow> ''string'')
            \<and> tp_required (td_parameters schema ! i) = (fp_default (formals ! i) = None))"
  unfolding formals_def
  by (simp add: get_schema_register_same infer_parameters_eq infer_parameter_def
           split: annotation.split)

theorem register_infers_parameters_witness:
  "\<exists>schema.
     fst (get_schema (register echo_tool ''returns its arguments'' None init_registry) ''echo'')
       = Some schema
   \<and> map tp_name (td_parameters schema) = [''text'', ''times'']
   \<and> map tp_type (td_parameters schema) = [''string'', ''integer'']
   \<and> map tp_required (td_parameters schema) = [True, False]"
proof -
  have f: "filter (\<lambda>p. fp_name p \<noteq> ''self'') (fn_params echo_tool) = fn_params echo_tool"
    by (simp add: echo_tool_def)
  obtain schema where s:
    "fst (get_schema (register echo_tool ''returns its arguments'' None init_registry)
            (fn_name echo_tool)) = Some schema"
    "length (td_parameters schema) = length (fn_params echo_tool)"
    "\<forall>i < length (fn_params echo_tool).
        tp_name (td_parameters schema ! i) = fp_name (fn_params echo_tool ! i)
      \<and> tp_type (td_parameters schema ! i) =
          (case fp_annotation (fn_params echo_tool ! i) of
             AnnInt \<Rightarrow> ''integer'' | AnnFloat \<Rightarrow> ''number'' | AnnBool \<Rightarrow> ''boolean''
           | AnnEmpty \<Rightarrow> ''string'' | AnnOther a \<Rightarrow> ''string'')
      \<and> tp_required (td_parameters schema ! i) = (fp_default (fn_params echo_tool ! i) = None)"
    using register_infers_parameters [where func = echo_tool and reg = init_registry
            and description = "''returns its arguments''"]
    unfolding f by blast
  have l: "length (td_parameters schema) = 2" using s(2) by (simp add: echo_tool_def)
  then obtain a b where ab: "td_parameters schema = [a, b]"
    by (metis (no_types, lifting) length_0_conv length_Suc_conv numeral_2_eq_2)
  have i: "(0::nat) < length (fn_params echo_tool)" "(1::nat) < length (fn_params echo_tool)"
    by (simp_all add: echo_tool_def)
  have "tp_name a = ''text''" "tp_name b = ''times''" "tp_type a = ''string''"
      "tp_type b = ''integer''" "tp_required a" "\<not> tp_required b"
    using s(3) [rule_format, OF i(1)] s(3) [rule_format, OF i(2)] ab
    by (simp_all add: echo_tool_def)
  with s(1) ab show ?thesis by (simp add: echo_tool_def)
qed

subsection \<open>The two dicts of the registry stay in step\<close>

lemma set_update_subset: "set (AList.update k v al) \<subseteq> insert (k, v) (set al)"
  by (induction al) auto

lemma consistent_register: "consistent reg \<Longrightarrow> consistent (register f d ps reg)"
  unfolding consistent_def
  apply (simp add: tools_keys_register schemas_keys_register)
  apply (simp add: register_def Let_def)
  using set_update_subset by fastforce

lemma consistent_register_all: "consistent reg \<Longrightarrow> consistent (register_all calls reg)"
  by (induction calls reg rule: register_all.induct) (simp_all add: consistent_register)

lemma map_of_None_iff: "(map_of al k = None) = (k \<notin> set (map fst al))"
  by (simp add: map_of_eq_None_iff)

text \<open>
  C10: after any sequence of \<open>register\<close> calls on a new registry, \<open>_tools\<close> and
  \<open>_schemas\<close> have the same keys (in the same order), every stored schema's name is its
  key, \<open>get_tool\<close> and \<open>get_schema\<close> find a name or miss it together, and a lookup
  leaves the registry as it was.
\<close>

theorem registry_consistent:
  "map fst (tools (register_all calls init_registry))
     = map fst (schemas (register_all calls init_registry))
   \<and> (\<forall>ks \<in> set (schemas (register_all calls init_registry)). td_name (snd ks) = fst ks)
   \<and> ((fst (get_tool (register_all calls init_registry) n) = None)
        = (fst (get_schema (register_all calls init_registry) n) = None))
   \<and> snd (get_tool (register_all calls init_registry) n) = register_all calls init_registry
   \<and> snd (get_schema (register_all calls init_registry) n) = register_all calls init_registry"
proof -
  have "consistent init_registry" by (simp add: consistent_def init_registry_def)
  then have c: "consistent (register_all calls init_registry)" by (rule consistent_register_all)
  then show ?thesis
    by (auto simp: consistent_def get_tool_def get_schema_def map_of_None_iff)
qed

theorem registry_consistent_witness:
  "map fst (tools (register_all example_calls init_registry)) = [''echo'', ''boom'']
   \<and> map fst (schemas (register_all example_calls init_registry)) = [''echo'', ''boom'']
   \<and> map (\<lambda>ks. td_name (snd ks)) (schemas (register_all example_calls init_registry))
       = [''echo'', ''boom'']
   \<and> fst (get_tool (register_all example_calls init_registry) ''nope'') = None
   \<and> fst (get_schema (register_all example_calls init_registry) ''nope'') = None"
proof -
  have k: "map fst (tools (register_all example_calls init_registry)) = [''echo'', ''boom'']"
    by (simp add: example_calls_def tools_keys_register init_registry_def echo_tool_def
          boom_tool_def echo_again_def)
  have g: "fst (get_tool (register_all example_calls init_registry) ''nope'') = None"
    by (simp add: example_calls_def register_def Let_def init_registry_def echo_tool_def
          boom_tool_def echo_again_def get_tool_def)
  note c = registry_consistent [of example_calls "''nope''"]
  have "map (\<lambda>ks. td_name (snd ks)) (schemas (register_all example_calls init_registry))
          = map fst (schemas (register_all example_calls init_registry))"
    using c by simp
  then show ?thesis
    using c k g by simp
qed

section \<open>Properties of the float arithmetic\<close>

lemma pow2_powr: "pow2 k = 2 powr (of_int k)"
  by (simp add: pow2_def powr_int)

lemma pow2_pos: "0 < pow2 k"
  by (simp add: pow2_powr)

lemma quantum_exponent_eq:
  assumes "pow2 e \<le> \<bar>x\<bar>" and "\<bar>x\<bar> < pow2 (e + 1)"
  shows "quantum_exponent x = max (e - 52) (- 1074)"
proof -
  have p: "0 < \<bar>x\<bar>" using assms(1) pow2_pos [of e] by linarith
  have "\<lfloor>log 2 \<bar>x\<bar>\<rfloor> = e"
    using assms p by (subst floor_log_eq_powr_iff) (simp_all add: pow2_powr)
  then show ?thesis by (simp add: quantum_exponent_def)
qed

lemma nearest_binary64_eval:
  assumes "pow2 e \<le> \<bar>x\<bar>" and "\<bar>x\<bar> < pow2 (e + 1)" and "q = max (e - 52) (- 1074)"
  shows "nearest_binary64 x = of_int (round_half_even (x / pow2 q)) * pow2 q"
proof -
  have "x \<noteq> 0" using assms(1) pow2_pos [of e] by auto
  then show ?thesis
    by (simp add: nearest_binary64_def quantum_exponent_eq [OF assms(1,2)] assms(3))
qed

lemma round_half_even_of_int [simp]: "round_half_even (of_int k) = k"
  by (simp add: round_half_even_def)


lemma round_half_even_near: "\<bar>of_int (round_half_even y) - y\<bar> \<le> 1 / 2"
  unfolding round_half_even_def Let_def by (auto; linarith)

lemma pow2_add: "pow2 (a + b) = pow2 a * pow2 b"
  by (simp add: pow2_powr powr_add)

lemma pow2_0 [simp]: "pow2 0 = 1"
  by (simp add: pow2_def)

lemma pow2_mono: "a \<le> b \<Longrightarrow> pow2 a \<le> pow2 b"
  by (simp add: pow2_powr)

lemma floor_log2_bounds:
  assumes "x \<noteq> 0"
  shows "pow2 \<lfloor>log 2 \<bar>x\<bar>\<rfloor> \<le> \<bar>x\<bar>" and "\<bar>x\<bar> < pow2 (\<lfloor>log 2 \<bar>x\<bar>\<rfloor> + 1)"
  using assms floor_log_eq_powr_iff [of "\<bar>x\<bar>" 2 "\<lfloor>log 2 \<bar>x\<bar>\<rfloor>"]
  by (simp_all add: pow2_powr)

text \<open>A nonzero value at least one in size does not round to zero.\<close>

lemma nearest_binary64_nonzero:
  assumes "1 \<le> \<bar>x\<bar>"
  shows "nearest_binary64 x \<noteq> 0"
proof -
  have nz: "x \<noteq> 0" using assms by auto
  define e where "e = \<lfloor>log 2 \<bar>x\<bar>\<rfloor>"
  have e0: "0 \<le> e" unfolding e_def using assms by simp
  have q: "quantum_exponent x = e - 52" using e0 by (simp add: quantum_exponent_def e_def)
  have lo: "pow2 e \<le> \<bar>x\<bar>" using floor_log2_bounds(1) [OF nz] by (simp add: e_def)
  have "pow2 e = pow2 (e - 52) * pow2 52" using pow2_add [of "e - 52" 52] by simp
  then have "pow2 (e - 52) * 2 ^ 52 \<le> \<bar>x\<bar>" using lo by (simp add: pow2_def)
  then have "2 ^ 52 \<le> \<bar>x\<bar> / pow2 (e - 52)"
    using pow2_pos [of "e - 52"] by (simp add: pos_le_divide_eq mult.commute)
  then have big: "2 ^ 52 \<le> \<bar>x / pow2 (e - 52)\<bar>"
    using pow2_pos [of "e - 52"] by simp
  have "round_half_even (x / pow2 (e - 52)) \<noteq> 0"
  proof
    assume "round_half_even (x / pow2 (e - 52)) = 0"
    with round_half_even_near [of "x / pow2 (e - 52)"] have "\<bar>x / pow2 (e - 52)\<bar> \<le> 1 / 2"
      by simp
    moreover have "(1::real) / 2 < 2 ^ 52" by simp
    ultimately show False using big by linarith
  qed
  then show ?thesis
    using nz pow2_pos [of "e - 52"] by (simp add: nearest_binary64_def q)
qed

text \<open>An integer of fewer than 54 bits is a double.\<close>

lemma nearest_binary64_of_int:
  assumes "\<bar>n\<bar> < 2 ^ 53"
  shows "nearest_binary64 (of_int n) = of_int n"
proof (cases "n = 0")
  case True
  then show ?thesis by (simp add: nearest_binary64_def)
next
  case False
  define x :: real where "x = of_int n"
  have nz: "x \<noteq> 0" using False by (simp add: x_def)
  have one: "1 \<le> \<bar>x\<bar>" using False by (simp add: x_def)
  define e where "e = \<lfloor>log 2 \<bar>x\<bar>\<rfloor>"
  have e0: "0 \<le> e" unfolding e_def using one by simp
  have "\<bar>x\<bar> < 2 ^ 53" using assms unfolding x_def
    by (metis of_int_abs of_int_less_numeral_power_cancel_iff)
  then have "pow2 e < pow2 53"
    using floor_log2_bounds(1) [OF nz] by (simp add: e_def pow2_def)
  then have e52: "e \<le> 52"
    using pow2_mono [of 53 e] by (cases "53 \<le> e") simp_all
  have q: "quantum_exponent x = e - 52" using e0 by (simp add: quantum_exponent_def e_def)
  have p: "pow2 (e - 52) = 1 / 2 ^ nat (52 - e)"
    using e52 by (auto simp: pow2_def)
  have "x / pow2 (e - 52) = of_int (n * 2 ^ nat (52 - e))"
    by (simp add: p x_def)
  then have r: "round_half_even (x / pow2 (e - 52)) = n * 2 ^ nat (52 - e)"
    by (simp only: round_half_even_of_int)
  have "nearest_binary64 x = of_int (n * 2 ^ nat (52 - e)) * pow2 (e - 52)"
    using nz by (simp only: nearest_binary64_def q r if_False)
  also have "\<dots> = x" by (simp add: p x_def)
  finally show ?thesis by (simp add: x_def)
qed

lemma to_float_of_int:
  assumes "\<bar>n\<bar> < 2 ^ 53"
  shows "to_float (of_int n) = Fin (of_int n)"
proof -
  have "\<bar>real_of_int n\<bar> < 2 ^ 53" using assms
    by (metis of_int_abs of_int_less_numeral_power_cancel_iff)
  moreover have "(2::real) ^ 53 < 2 ^ 1024" by simp
  ultimately have "\<bar>real_of_int n\<bar> < 2 ^ 1024" by linarith
  then show ?thesis
    by (auto simp: to_float_def nearest_binary64_of_int [OF assms] Let_def)
qed

lemma to_float_numeral [simp]:
  "numeral k < (2::int) ^ 53 \<Longrightarrow> to_float (numeral k) = Fin (numeral k)"
  using to_float_of_int [of "numeral k"] by simp

lemma to_float_0 [simp]: "to_float 0 = Fin 0"
  using to_float_of_int [of 0] by simp

lemma to_float_1 [simp]: "to_float 1 = Fin 1"
  using to_float_of_int [of 1] by simp

lemma to_float_of_int_nonzero:
  assumes "n \<noteq> 0"
  shows "to_float (of_int n) \<noteq> Fin 0"
proof -
  have "1 \<le> \<bar>real_of_int n\<bar>" using assms by simp
  from nearest_binary64_nonzero [OF this] show ?thesis
    by (auto simp: to_float_def Let_def)
qed

lemma round_half_even_numeral [simp]: "round_half_even (numeral k) = numeral k"
  using round_half_even_of_int [of "numeral k"] by simp

lemma float_of_int_nonzero: "n \<noteq> 0 \<Longrightarrow> float_of_int n \<noteq> Fin 0"
  by (simp add: float_of_int_def to_float_of_int_nonzero)

section \<open>Properties of the metrics\<close>

text \<open>When the incremented total is not zero, \<open>record_run\<close> raises nothing and updates
  every field.\<close>

lemma record_run_ok:
  "total_runs m \<noteq> - 1 \<Longrightarrow>
   record_run success duration tokens tool_calls m =
     (None,
      m\<lparr>total_runs := total_runs m + 1,
        successful_runs := (if success then successful_runs m + 1 else successful_runs m),
        failed_runs := (if success then failed_runs m else failed_runs m + 1),
        total_tokens_used := total_tokens_used m + tokens,
        tool_calls_made := tool_calls_made m + tool_calls,
        average_response_time :=
          fquot (fadd (fmul (average_response_time m) (float_of_int (total_runs m))) duration)
            (float_of_int (total_runs m + 1))\<rparr>)"
  using float_of_int_nonzero [of "total_runs m + 1"]
  by (simp add: record_run_def Let_def truediv_def)

text \<open>A float operation evaluated: the binade of the exact result is given, the
  rounding is computed.\<close>

lemma to_float_eval:
  assumes "pow2 e \<le> \<bar>x\<bar>" and "\<bar>x\<bar> < pow2 (e + 1)" and "q = max (e - 52) (- 1074)"
      and "of_int (round_half_even (x / pow2 q)) * pow2 q = y" and "\<bar>y\<bar> < 2 ^ 1024"
  shows "to_float x = Fin y"
  using nearest_binary64_eval [OF assms(1,2,3)] assms(4,5)
  by (auto simp: to_float_def Let_def)

lemma float_literals:
  "to_float (1 / 10) = tenth" "to_float (2 / 10) = two_tenths" "to_float (3 / 10) = three_tenths"
  unfolding tenth_def two_tenths_def three_tenths_def
    apply (rule to_float_eval [where e = "-4" and q = "-56"]; simp add: pow2_def round_half_even_def)
   apply (rule to_float_eval [where e = "-3" and q = "-55"]; simp add: pow2_def round_half_even_def)
  apply (rule to_float_eval [where e = "-2" and q = "-54"]; simp add: pow2_def round_half_even_def)
  done

subsection \<open>The running mean\<close>

lemma after_first_eq: "after_first = init_metrics\<lparr>total_runs := 1, successful_runs := 1,
    average_response_time := tenth\<rparr>"
proof -
  have a: "to_float (3602879701896397 / 2 ^ 55) = Fin (3602879701896397 / 2 ^ 55)"
    by (rule to_float_eval [where e = "-4" and q = "-56"]; simp add: pow2_def round_half_even_def)
  show ?thesis
    using a
    by (simp add: after_first_def record_run_ok init_metrics_def float_of_int_def tenth_def)
qed

lemma after_second_eq: "after_second = init_metrics\<lparr>total_runs := 2, successful_runs := 2,
    average_response_time := Fin (5404319552844596 / 2 ^ 55)\<rparr>"
proof -
  have a: "to_float (3602879701896397 / 2 ^ 55) = Fin (3602879701896397 / 2 ^ 55)"
    by (rule to_float_eval [where e = "-4" and q = "-56"]; simp add: pow2_def round_half_even_def)
  have b: "to_float (3602879701896397 / 2 ^ 55 + 3602879701896397 / 2 ^ 54)
             = Fin (5404319552844596 / 2 ^ 54)"
    by (rule to_float_eval [where e = "-2" and q = "-54"]; simp add: pow2_def round_half_even_def)
  have c: "to_float (5404319552844596 / 2 ^ 54 / 2) = Fin (5404319552844596 / 2 ^ 55)"
    by (rule to_float_eval [where e = "-3" and q = "-55"]; simp add: pow2_def round_half_even_def)
  show ?thesis
    using a b c
    by (simp add: after_second_def after_first_eq record_run_ok init_metrics_def float_of_int_def
          tenth_def two_tenths_def)
qed


lemma after_third_eq: "after_third = init_metrics\<lparr>total_runs := 3, successful_runs := 3,
    average_response_time := Fin (7205759403792795 / 2 ^ 55)\<rparr>"
proof -
  have a: "to_float (5404319552844596 / 2 ^ 55 * 2) = Fin (5404319552844596 / 2 ^ 54)"
    by (rule to_float_eval [where e = "-2" and q = "-54"]; simp add: pow2_def round_half_even_def)
  have b: "to_float (5404319552844596 / 2 ^ 54 + 5404319552844595 / 2 ^ 54)
             = Fin (5404319552844596 / 2 ^ 53)"
    by (rule to_float_eval [where e = "-1" and q = "-53"]; simp add: pow2_def round_half_even_def)
  have c: "to_float (5404319552844596 / 2 ^ 53 / 3) = Fin (7205759403792795 / 2 ^ 55)"
    by (rule to_float_eval [where e = "-3" and q = "-55"]; simp add: pow2_def round_half_even_def)
  show ?thesis
    using a b c
    by (simp add: after_third_def after_second_eq record_run_ok init_metrics_def float_of_int_def
          three_tenths_def)
qed

text \<open>The incremental form at the third run, computed in floats.\<close>

lemma incremental_third: "fadd (average_response_time after_second)
        (fquot (fsub three_tenths (average_response_time after_second)) (float_of_int 3))
      = two_tenths"
proof -
  have a: "to_float (5404319552844595 / 2 ^ 54 - 5404319552844596 / 2 ^ 55)
            = Fin (5404319552844594 / 2 ^ 55)"
    by (rule to_float_eval [where e = "-3" and q = "-55"]; simp add: pow2_def round_half_even_def)
  have b: "to_float (5404319552844594 / 2 ^ 55 / 3) = Fin (1801439850948198 / 2 ^ 55)"
    by (rule to_float_eval [where e = "-5" and q = "-57"]; simp add: pow2_def round_half_even_def)
  have c: "to_float (5404319552844596 / 2 ^ 55 + 1801439850948198 / 2 ^ 55)
             = Fin (3602879701896397 / 2 ^ 54)"
    by (rule to_float_eval [where e = "-3" and q = "-55"]; simp add: pow2_def round_half_even_def)
  show ?thesis
    using a b c
    by (simp add: after_second_eq init_metrics_def float_of_int_def three_tenths_def two_tenths_def
          fsub_def)
qed

text \<open>The four runs of the scenario.\<close>

lemma to_float_three_quarters: "to_float (3 / 4) = Fin (3 / 4)"
  by (rule to_float_eval [where e = "-1" and q = "-53"]; simp add: pow2_def round_half_even_def)

lemma four_runs:
  "snd (record_run True (Fin 6) t3 c3 (snd (record_run True (Fin 4) t2 c2
       (snd (record_run True (Fin 2) t1 c1 init_metrics)))))
     = \<lparr>total_runs = 3, successful_runs = 3, failed_runs = 0,
        total_tokens_used = t1 + t2 + t3, average_response_time = Fin 4,
        tool_calls_made = c1 + c2 + c3\<rparr>"
  "snd (record_run False (Fin 0) t4 c4
     \<lparr>total_runs = 3, successful_runs = 3, failed_runs = 0,
      total_tokens_used = t1 + t2 + t3, average_response_time = Fin 4,
      tool_calls_made = c1 + c2 + c3\<rparr>)
     = \<lparr>total_runs = 4, successful_runs = 3, failed_runs = 1,
        total_tokens_used = t1 + t2 + t3 + t4, average_response_time = Fin 3,
        tool_calls_made = c1 + c2 + c3 + c4\<rparr>"
  by (simp_all add: record_run_ok init_metrics_def float_of_int_def)

text \<open>
  C6, as stated: the mean recomputed by \<open>record_run\<close> equals the incremental form
  \<open>oldMean + (duration - oldMean) / newTotal\<close>. After successful runs of 0.1 and 0.2
  seconds the mean is 0.15000000000000002; a third run of 0.3 seconds makes
  \<open>record_run\<close> store 0.20000000000000004, while the incremental form gives 0.2,
  computed in floats as well as computed exactly.
\<close>

theorem metrics_incremental_mean_counterexample:
  "total_runs after_second = 2
   \<and> average_response_time after_second = Fin (5404319552844596 / 2 ^ 55)
   \<and> after_third = snd (record_run True three_tenths 0 0 after_second)
   \<and> average_response_time after_third = Fin (7205759403792795 / 2 ^ 55)
   \<and> fadd (average_response_time after_second)
        (fquot (fsub three_tenths (average_response_time after_second)) (float_of_int 3))
       = Fin (7205759403792794 / 2 ^ 55)
   \<and> (5404319552844596 / 2 ^ 55 + (5404319552844595 / 2 ^ 54 - 5404319552844596 / 2 ^ 55) / 3
        :: real) = 7205759403792794 / 2 ^ 55
   \<and> average_response_time after_third
       \<noteq> fadd (average_response_time after_second)
           (fquot (fsub three_tenths (average_response_time after_second)) (float_of_int 3))"
proof -
  have a: "total_runs after_second = 2"
    and b: "average_response_time after_second = Fin (5404319552844596 / 2 ^ 55)"
    by (simp_all add: after_second_eq init_metrics_def)
  have c: "after_third = snd (record_run True three_tenths 0 0 after_second)"
    by (simp only: after_third_def)
  have d: "average_response_time after_third = Fin (7205759403792795 / 2 ^ 55)"
    by (simp add: after_third_eq init_metrics_def)
  have e: "fadd (average_response_time after_second)
             (fquot (fsub three_tenths (average_response_time after_second)) (float_of_int 3))
           = Fin (7205759403792794 / 2 ^ 55)"
    using incremental_third by (simp add: two_tenths_def)
  have f: "(5404319552844596 / 2 ^ 55
             + (5404319552844595 / 2 ^ 54 - 5404319552844596 / 2 ^ 55) / 3 :: real)
           = 7205759403792794 / 2 ^ 55"
    by simp
  have g: "average_response_time after_third
             \<noteq> fadd (average_response_time after_second)
                 (fquot (fsub three_tenths (average_response_time after_second))
                    (float_of_int 3))"
    unfolding d e by simp
  from a b c d e f g show ?thesis by (intro conjI)
qed

text \<open>
  C6, amended: from a new aggregator, three successful runs of 2.0, 4.0 and 6.0 seconds
  give an average response time of 4.0 and a success rate of 1.0; one more failed run
  of 0 seconds gives \<open>total_runs = 4\<close> and a success rate of 0.75 (whatever the token
  and tool-call counts). In general \<open>record_run\<close> recomputes the mean as
  \<open>(oldMean * (newTotal - 1) + duration) / newTotal\<close> in float arithmetic, each of the
  three operations rounding to the nearest double; the result equals the incremental
  form \<open>oldMean + (duration - oldMean) / newTotal\<close> whenever none of these operations
  and neither conversion of a counter rounds. The aggregator is any one whose
  incremented total is not zero and whose total is within the range of a double, as
  every aggregator reached from a new one in practice is.
\<close>

theorem metrics_running_mean:
  "(let m1 = snd (record_run True (Fin 2) t1 c1 init_metrics);
        m2 = snd (record_run True (Fin 4) t2 c2 m1);
        m3 = snd (record_run True (Fin 6) t3 c3 m2);
        m4 = snd (record_run False (Fin 0) t4 c4 m3)
    in average_response_time m3 = Fin 4
     \<and> md_avg_response_time_seconds (to_dict m3) = Fin 4
     \<and> md_success_rate (to_dict m3) = Fin 1
     \<and> total_runs m4 = 4
     \<and> md_total_runs (to_dict m4) = 4
     \<and> md_success_rate (to_dict m4) = Fin (3 / 4))
   \<and> (total_runs m \<noteq> - 1 \<and> \<bar>total_runs m\<bar> < 2 ^ 1023 \<longrightarrow>
        fst (record_run success duration tokens tool_calls m) = None
      \<and> average_response_time (snd (record_run success duration tokens tool_calls m))
          = fquot (fadd (fmul (average_response_time m) (float_of_int (total_runs m))) duration)
              (float_of_int (total_runs m + 1)))
   \<and> (total_runs m \<noteq> - 1
        \<and> average_response_time m = Fin oldMean \<and> duration = Fin d
        \<and> float_of_int (total_runs m) = Fin (of_int (total_runs m))
        \<and> float_of_int (total_runs m + 1) = Fin (of_int (total_runs m + 1))
        \<and> to_float (oldMean * of_int (total_runs m)) = Fin (oldMean * of_int (total_runs m))
        \<and> to_float (oldMean * of_int (total_runs m) + d)
            = Fin (oldMean * of_int (total_runs m) + d)
        \<and> to_float ((oldMean * of_int (total_runs m) + d) / of_int (total_runs m + 1))
            = Fin ((oldMean * of_int (total_runs m) + d) / of_int (total_runs m + 1))
      \<longrightarrow> average_response_time (snd (record_run success duration tokens tool_calls m))
            = Fin (oldMean + (d - oldMean) / of_int (total_runs m + 1)))"
proof (intro conjI impI)
  show "let m1 = snd (record_run True (Fin 2) t1 c1 init_metrics);
        m2 = snd (record_run True (Fin 4) t2 c2 m1);
        m3 = snd (record_run True (Fin 6) t3 c3 m2);
        m4 = snd (record_run False (Fin 0) t4 c4 m3)
    in average_response_time m3 = Fin 4
     \<and> md_avg_response_time_seconds (to_dict m3) = Fin 4
     \<and> md_success_rate (to_dict m3) = Fin 1
     \<and> total_runs m4 = 4
     \<and> md_total_runs (to_dict m4) = 4
     \<and> md_success_rate (to_dict m4) = Fin (3 / 4)"
    unfolding Let_def four_runs
    by (simp add: to_dict_def int_truediv_def to_float_three_quarters)
next
  assume "total_runs m \<noteq> - 1 \<and> \<bar>total_runs m\<bar> < 2 ^ 1023"
  then show "fst (record_run success duration tokens tool_calls m) = None"
    and "average_response_time (snd (record_run success duration tokens tool_calls m))
          = fquot (fadd (fmul (average_response_time m) (float_of_int (total_runs m))) duration)
              (float_of_int (total_runs m + 1))"
    by (simp_all add: record_run_ok)
next
  assume h: "total_runs m \<noteq> - 1
        \<and> average_response_time m = Fin oldMean \<and> duration = Fin d
        \<and> float_of_int (total_runs m) = Fin (of_int (total_runs m))
        \<and> float_of_int (total_runs m + 1) = Fin (of_int (total_runs m + 1))
        \<and> to_float (oldMean * of_int (total_runs m)) = Fin (oldMean * of_int (total_runs m))
        \<and> to_float (oldMean * of_int (total_runs m) + d)
            = Fin (oldMean * of_int (total_runs m) + d)
        \<and> to_float ((oldMean * of_int (total_runs m) + d) / of_int (total_runs m + 1))
            = Fin ((oldMean * of_int (total_runs m) + d) / of_int (total_runs m + 1))"
  then have nz: "(of_int (total_runs m) :: real) + 1 \<noteq> 0"
    by (metis of_int_1 of_int_add of_int_eq_0_iff add_eq_0_iff2)
  have alg: "(oldMean * of_int (total_runs m) + d) / of_int (total_runs m + 1)
               = oldMean + (d - oldMean) / of_int (total_runs m + 1)"
    using nz by (simp add: field_simps)
  have "average_response_time (snd (record_run success duration tokens tool_calls m))
          = Fin ((oldMean * of_int (total_runs m) + d) / of_int (total_runs m + 1))"
    using h by (simp add: record_run_ok del: of_int_add)
  then show "average_response_time (snd (record_run success duration tokens tool_calls m))
            = Fin (oldMean + (d - oldMean) / of_int (total_runs m + 1))"
    by (simp only: alg)
qed

theorem metrics_running_mean_witness:
  "total_runs init_metrics \<noteq> - 1
   \<and> \<bar>total_runs init_metrics\<bar> < 2 ^ 1023
   \<and> fst (record_run True (Fin 2) 10 1 init_metrics) = None
   \<and> average_response_time (snd (record_run True (Fin 2) 10 1 init_metrics)) = Fin 2"
proof -
  have t: "total_runs init_metrics \<noteq> - 1" by (simp add: init_metrics_def)
  have a: "average_response_time init_metrics = Fin 0" "total_runs init_metrics = 0"
    by (simp_all add: init_metrics_def)
  from metrics_running_mean [where m = init_metrics and success = True
         and duration = "Fin 2" and tokens = 10 and tool_calls = 1 and oldMean = 0 and d = 2]
  show ?thesis using t a by (simp add: float_of_int_def)
qed

section \<open>Properties of the response extraction\<close>

lemma content_parts_loop_eq:
  "content_parts_loop cs acc = acc @ [v. TextContent v \<leftarrow> cs]"
  by (induction cs acc rule: content_parts_loop.induct) simp_all

text \<open>
  C7: when the message fetch answers, \<open>_extract_response\<close> returns the text
  \<open>No response generated\<close>, not an error, if the list is empty or its first (newest)
  message is not from the assistant; otherwise it returns the text values of that
  message's content items that carry text, in order, joined by newlines.
\<close>

theorem extract_response_result:
  assumes "list_messages_result svc = Inr data"
  shows "(data = [] \<or> msg_role (hd data) \<noteq> ''assistant''
            \<longrightarrow> extract_response svc = Inr ''No response generated'')
       \<and> (data \<noteq> [] \<and> msg_role (hd data) = ''assistant''
            \<longrightarrow> extract_response svc
                  = Inr (join newline [v. TextContent v \<leftarrow> msg_content (hd data)]))"
  using assms
  by (cases data) (simp_all add: extract_response_def content_parts_loop_eq)

theorem extract_response_result_witness:
  "extract_response user_only_service = Inr ''No response generated''
   \<and> extract_response done_service = Inr (''Hello'' @ [CHR 0x0A] @ ''World'')"
proof -
  have u: "list_messages_result user_only_service = Inr [user_message]"
    by (simp add: user_only_service_def)
  have d: "list_messages_result done_service = Inr [assistant_message]"
    by (simp add: done_service_def idle_service_def)
  show ?thesis
    using extract_response_result [OF u] extract_response_result [OF d]
    by (simp add: user_message_def assistant_message_def newline_def)
qed

section \<open>Properties of the tool-call dispatch\<close>

lemma invoke_tool_id:
  "invoke_tool js reg tc = Inr out \<Longrightarrow> tool_call_id out = tc_id tc"
  by (auto simp: invoke_tool_def split: sum.splits)

text \<open>The three ways the \<open>try\<close> block fails on the registry's side: the arguments do
  not parse, the tool is not registered, the handler (of a callable that passes the
  guard) raises.\<close>

lemma invoke_tool_failures:
  "(loads js (tc_arguments tc) = Inl e \<longrightarrow> invoke_tool js reg tc = Inl e)
   \<and> (loads js (tc_arguments tc) = Inr a \<and> fst (get_tool reg (tc_name tc)) = None
        \<longrightarrow> invoke_tool js reg tc
              = Inl (Exn ''ValueError'' (''Tool not found: '' @ tc_name tc) None))
   \<and> (loads js (tc_arguments tc) = Inr (PDict kv)
        \<and> fst (get_tool reg (tc_name tc)) = Some tool \<and> fn_truth tool = Inr True
        \<and> fn_call tool kv = Inl e
        \<longrightarrow> invoke_tool js reg tc = Inl e)"
  by (simp add: invoke_tool_def execute_tool_call_def execute_tool_def call_kwargs_def)

lemma tool_output_for_cases:
  assumes "\<forall>e. \<exists>s. dumps js (error_payload e) = Inr s"
  shows "\<exists>out. tool_output_for js reg tc = Inr out \<and> tool_call_id out = tc_id tc
           \<and> (\<forall>e. invoke_tool js reg tc = Inl e
                 \<longrightarrow> dumps js (error_payload e) = Inr (output_str out))
           \<and> (\<forall>ok. invoke_tool js reg tc = Inr ok \<longrightarrow> out = ok)"
proof (cases "invoke_tool js reg tc")
  case (Inr ok)
  then show ?thesis by (simp add: tool_output_for_def invoke_tool_id)
next
  case (Inl e)
  from assms obtain s where "dumps js (error_payload e) = Inr s" by blast
  with Inl show ?thesis by (simp add: tool_output_for_def)
qed

lemma tool_calls_loop_total:
  assumes "\<forall>e. \<exists>s. dumps js (error_payload e) = Inr s"
  shows "\<exists>outs. tool_calls_loop js reg tcs acc = Inr (acc @ outs)
           \<and> length outs = length tcs
           \<and> (\<forall>i < length tcs. tool_output_for js reg (tcs ! i) = Inr (outs ! i))"
proof (induction tcs arbitrary: acc)
  case Nil
  show ?case by simp
next
  case (Cons tc tcs)
  from tool_output_for_cases [OF assms, of reg tc]
  obtain out where o: "tool_output_for js reg tc = Inr out" by blast
  from Cons.IH [of "acc @ [out]"] obtain outs where
    r: "tool_calls_loop js reg tcs (acc @ [out]) = Inr ((acc @ [out]) @ outs)"
       "length outs = length tcs"
       "\<forall>i < length tcs. tool_output_for js reg (tcs ! i) = Inr (outs ! i)"
    by blast
  have "tool_calls_loop js reg (tc # tcs) acc = Inr (acc @ (out # outs))"
    using o r(1) by simp
  moreover have "length (out # outs) = length (tc # tcs)" using r(2) by simp
  moreover have "\<forall>i < length (tc # tcs).
      tool_output_for js reg ((tc # tcs) ! i) = Inr ((out # outs) ! i)"
    using o r(3) by (auto simp: nth_Cons split: nat.split)
  ultimately show ?case by blast
qed

lemma example_dumps_error: "\<forall>e. \<exists>s. dumps example_json (error_payload e) = Inr s"
  by (simp add: example_json_def error_payload_def)

text \<open>
  C1: for a run in the needs-tool-input state with a batch of N tool calls,
  \<open>_handle_tool_calls\<close> makes one submission of exactly N outputs, the i-th carrying
  the id of the i-th call. No failure of a single call leaves the loop: a call whose
  \<open>try\<close> block raises \<open>e\<close> gets as its output the JSON text of the dict
  \<open>{"error": str(e)}\<close>, and the other calls get their own outputs. That holds in
  particular for a call whose arguments do not parse (\<open>e\<close> is the parser's
  exception), whose tool is not registered (\<open>e\<close> is the \<open>ValueError\<close> with the text
  \<open>Tool not found: <name>\<close>) and whose handler raises \<open>e\<close>. The only exception the
  function can raise is the one of the submission. (\<open>json.dumps\<close> is a parameter;
  that it serialises every dict with the single key \<open>error\<close> and a string value is
  the hypothesis.)
\<close>

theorem handle_tool_calls_isolates_failures:
  assumes dumps_error: "\<forall>msg. \<exists>s. dumps js (PDict [(''error'', PStr msg)]) = Inr s"
      and batch: "required_action r = Some tcs"
  shows "\<exists>outs.
           handle_tool_calls svc js reg r w
             = (submit_raises svc (length (submitted w)) outs,
                w\<lparr>submitted := submitted w @ [outs]\<rparr>)
         \<and> length outs = length tcs
         \<and> map tool_call_id outs = map tc_id tcs
         \<and> (\<forall>i < length tcs.
              (\<forall>ok. invoke_tool js reg (tcs ! i) = Inr ok \<longrightarrow> outs ! i = ok)
            \<and> (\<forall>e. invoke_tool js reg (tcs ! i) = Inl e
                  \<longrightarrow> dumps js (PDict [(''error'', PStr (exn_msg e))])
                       = Inr (output_str (outs ! i)))
            \<and> (\<forall>e. loads js (tc_arguments (tcs ! i)) = Inl e
                  \<longrightarrow> dumps js (PDict [(''error'', PStr (exn_msg e))])
                       = Inr (output_str (outs ! i)))
            \<and> (\<forall>a. loads js (tc_arguments (tcs ! i)) = Inr a
                    \<and> fst (get_tool reg (tc_name (tcs ! i))) = None
                  \<longrightarrow> dumps js (PDict [(''error'',
                                PStr (''Tool not found: '' @ tc_name (tcs ! i)))])
                       = Inr (output_str (outs ! i)))
            \<and> (\<forall>kv tool e. loads js (tc_arguments (tcs ! i)) = Inr (PDict kv)
                    \<and> fst (get_tool reg (tc_name (tcs ! i))) = Some tool
                    \<and> fn_truth tool = Inr True
                    \<and> fn_call tool kv = Inl e
                  \<longrightarrow> dumps js (PDict [(''error'', PStr (exn_msg e))])
                       = Inr (output_str (outs ! i))))"
proof -
  have d: "\<forall>e. \<exists>s. dumps js (error_payload e) = Inr s"
    using dumps_error by (simp add: error_payload_def)
  from tool_calls_loop_total [OF d, of reg tcs "[]"]
  obtain outs where
    l: "tool_calls_loop js reg tcs [] = Inr outs" "length outs = length tcs"
       "\<forall>i < length tcs. tool_output_for js reg (tcs ! i) = Inr (outs ! i)"
    by auto
  have h: "handle_tool_calls svc js reg r w
             = (submit_raises svc (length (submitted w)) outs,
                w\<lparr>submitted := submitted w @ [outs]\<rparr>)"
    using batch l(1) by (simp add: handle_tool_calls_def submit_tool_outputs_def)
  have each: "tool_call_id (outs ! i) = tc_id (tcs ! i)
            \<and> (\<forall>ok. invoke_tool js reg (tcs ! i) = Inr ok \<longrightarrow> outs ! i = ok)
            \<and> (\<forall>e. invoke_tool js reg (tcs ! i) = Inl e
                  \<longrightarrow> dumps js (PDict [(''error'', PStr (exn_msg e))])
                       = Inr (output_str (outs ! i)))"
    if "i < length tcs" for i
    using tool_output_for_cases [OF d, of reg "tcs ! i"] l(3) that
    by (auto simp: error_payload_def)
  have ids: "map tool_call_id outs = map tc_id tcs"
    using l(2) each by (auto intro: nth_equalityI)
  have kinds: "(\<forall>e. loads js (tc_arguments (tcs ! i)) = Inl e
                  \<longrightarrow> dumps js (PDict [(''error'', PStr (exn_msg e))])
                       = Inr (output_str (outs ! i)))
            \<and> (\<forall>a. loads js (tc_arguments (tcs ! i)) = Inr a
                    \<and> fst (get_tool reg (tc_name (tcs ! i))) = None
                  \<longrightarrow> dumps js (PDict [(''error'',
                                PStr (''Tool not found: '' @ tc_name (tcs ! i)))])
                       = Inr (output_str (outs ! i)))
            \<and> (\<forall>kv tool e. loads js (tc_arguments (tcs ! i)) = Inr (PDict kv)
                    \<and> fst (get_tool reg (tc_name (tcs ! i))) = Some tool
                    \<and> fn_truth tool = Inr True
                    \<and> fn_call tool kv = Inl e
                  \<longrightarrow> dumps js (PDict [(''error'', PStr (exn_msg e))])
                       = Inr (output_str (outs ! i)))"
    if "i < length tcs" for i
  proof (intro conjI allI impI)
    fix e assume "loads js (tc_arguments (tcs ! i)) = Inl e"
    then have "invoke_tool js reg (tcs ! i) = Inl e"
      using invoke_tool_failures [of js "tcs ! i" e reg] by simp
    then show "dumps js (PDict [(''error'', PStr (exn_msg e))]) = Inr (output_str (outs ! i))"
      using each [OF that] by simp
  next
    fix a assume "loads js (tc_arguments (tcs ! i)) = Inr a
                    \<and> fst (get_tool reg (tc_name (tcs ! i))) = None"
    then have "invoke_tool js reg (tcs ! i)
                 = Inl (Exn ''ValueError'' (''Tool not found: '' @ tc_name (tcs ! i)) None)"
      using invoke_tool_failures [of js "tcs ! i" _ reg a] by simp
    then show "dumps js (PDict [(''error'', PStr (''Tool not found: '' @ tc_name (tcs ! i)))])
                 = Inr (output_str (outs ! i))"
      using each [OF that] by fastforce
  next
    fix kv tool e
    assume "loads js (tc_arguments (tcs ! i)) = Inr (PDict kv)
              \<and> fst (get_tool reg (tc_name (tcs ! i))) = Some tool
              \<and> fn_truth tool = Inr True
              \<and> fn_call tool kv = Inl e"
    then have "invoke_tool js reg (tcs ! i) = Inl e"
      using invoke_tool_failures [of js "tcs ! i" e reg _ kv tool] by simp
    then show "dumps js (PDict [(''error'', PStr (exn_msg e))]) = Inr (output_str (outs ! i))"
      using each [OF that] by simp
  qed
  from h l(2) ids each kinds show ?thesis by blast
qed

theorem handle_tool_calls_isolates_failures_witness:
  "(\<forall>msg. \<exists>s. dumps example_json (PDict [(''error'', PStr msg)]) = Inr s)
   \<and> required_action action_run = Some tool_batch
   \<and> (\<exists>outs. handle_tool_calls idle_service example_json example_registry action_run init_world
                = (None, init_world\<lparr>submitted := [outs]\<rparr>)
            \<and> length outs = 4
            \<and> map tool_call_id outs = [''call_1'', ''call_2'', ''call_3'', ''call_4'']
            \<and> output_str (outs ! 1) = ''{error: Tool not found: nope}''
            \<and> output_str (outs ! 2) = ''{error: missing}''
            \<and> output_str (outs ! 3) = ''{error: Expecting value}'')"
proof -
  have d: "\<forall>msg. \<exists>s. dumps example_json (PDict [(''error'', PStr msg)]) = Inr s"
    by (simp add: example_json_def)
  have b: "required_action action_run = Some tool_batch"
    by (simp add: action_run_def)
  have i: "length tool_batch = 4"
    "map tc_id tool_batch = [''call_1'', ''call_2'', ''call_3'', ''call_4'']"
    by (simp_all add: tool_batch_def)
  from handle_tool_calls_isolates_failures [OF d b,
         of idle_service example_registry init_world]
  obtain outs where o:
    "handle_tool_calls idle_service example_json example_registry action_run init_world
       = (submit_raises idle_service (length (submitted init_world)) outs,
          init_world\<lparr>submitted := submitted init_world @ [outs]\<rparr>)"
    "length outs = length tool_batch"
    "map tool_call_id outs = map tc_id tool_batch"
    and f: "\<forall>i < length tool_batch.
              (\<forall>e. loads example_json (tc_arguments (tool_batch ! i)) = Inl e
                  \<longrightarrow> dumps example_json (PDict [(''error'', PStr (exn_msg e))])
                       = Inr (output_str (outs ! i)))
            \<and> (\<forall>a. loads example_json (tc_arguments (tool_batch ! i)) = Inr a
                    \<and> fst (get_tool example_registry (tc_name (tool_batch ! i))) = None
                  \<longrightarrow> dumps example_json (PDict [(''error'',
                                PStr (''Tool not found: '' @ tc_name (tool_batch ! i)))])
                       = Inr (output_str (outs ! i)))
            \<and> (\<forall>kv tool e. loads example_json (tc_arguments (tool_batch ! i)) = Inr (PDict kv)
                    \<and> fst (get_tool example_registry (tc_name (tool_batch ! i))) = Some tool
                    \<and> fn_truth tool = Inr True
                    \<and> fn_call tool kv = Inl e
                  \<longrightarrow> dumps example_json (PDict [(''error'', PStr (exn_msg e))])
                       = Inr (output_str (outs ! i)))"
    by blast
  have n: "(1::nat) < length tool_batch" "(2::nat) < length tool_batch"
    "(3::nat) < length tool_batch"
    by (simp_all add: tool_batch_def)
  have o1: "output_str (outs ! 1) = ''{error: Tool not found: nope}''"
    using f [rule_format, OF n(1)]
    by (simp add: tool_batch_def example_json_def example_registry_lookups)
  have o2: "output_str (outs ! 2) = ''{error: missing}''"
  proof -
    have "loads example_json (tc_arguments (tool_batch ! 2)) = Inr (PDict [])
          \<and> fst (get_tool example_registry (tc_name (tool_batch ! 2))) = Some boom_tool
          \<and> fn_truth boom_tool = Inr True
          \<and> fn_call boom_tool [] = Inl (Exn ''KeyError'' ''missing'' None)"
      by (simp add: tool_batch_def example_json_def example_registry_lookups boom_tool_def)
    with f [rule_format, OF n(2)]
    have "dumps example_json (PDict [(''error'', PStr (exn_msg (Exn ''KeyError'' ''missing'' None)))])
            = Inr (output_str (outs ! 2))"
      by blast
    then show ?thesis by (simp add: example_json_def)
  qed
  have o3: "output_str (outs ! 3) = ''{error: Expecting value}''"
    using f [rule_format, OF n(3)]
    by (simp add: tool_batch_def example_json_def)
  show ?thesis
    using o i b d o1 o2 o3
    by (auto simp: idle_service_def init_world_def)
qed

text \<open>The same batch, evaluated: one success and three error payloads, in order.\<close>

lemma handle_tool_calls_example:
  "handle_tool_calls idle_service example_json example_registry action_run init_world
   = (None, init_world\<lparr>submitted :=
        [[\<lparr>tool_call_id = ''call_1'', output_str = ''{}''\<rparr>,
          \<lparr>tool_call_id = ''call_2'', output_str = ''{error: Tool not found: nope}''\<rparr>,
          \<lparr>tool_call_id = ''call_3'', output_str = ''{error: missing}''\<rparr>,
          \<lparr>tool_call_id = ''call_4'', output_str = ''{error: Expecting value}''\<rparr>]]\<rparr>)"
  by (simp add: handle_tool_calls_def action_run_def in_progress_run_def tool_batch_def
     tool_output_for_def invoke_tool_def execute_tool_call_def execute_tool_def call_kwargs_def
     example_registry_lookups example_json_def error_payload_def submit_tool_outputs_def
     idle_service_def init_world_def echo_tool_def boom_tool_def)

section \<open>Properties of the poll loop\<close>

text \<open>
  C5: with a positive timeout (the configuration admits 10 to 600), a run whose status
  is \<open>COMPLETED\<close>, \<open>FAILED\<close> or \<open>CANCELLED\<close> on the first fetch is returned at once:
  one status fetch, no sleep, nothing dispatched or submitted.
\<close>

theorem poll_returns_terminal_at_once:
  assumes "0 < agent_timeout_seconds cfg"
      and "get_run_result svc (fetches w) = Inr r"
      and "run_status r = COMPLETED \<or> run_status r = FAILED \<or> run_status r = CANCELLED"
  shows "poll_run_completion svc js reg cfg w = (Inr r, w\<lparr>fetches := Suc (fetches w)\<rparr>)
       \<and> fetches (snd (poll_run_completion svc js reg cfg w)) = fetches w + 1
       \<and> sleeps (snd (poll_run_completion svc js reg cfg w)) = sleeps w
       \<and> submitted (snd (poll_run_completion svc js reg cfg w)) = submitted w"
  using assms by (auto simp: poll_run_completion_def poll_loop.simps)

theorem poll_returns_terminal_at_once_witness:
  "0 < agent_timeout_seconds (config example_agent)
   \<and> get_run_result done_service (fetches init_world) = Inr completed_run
   \<and> run_status completed_run = COMPLETED
   \<and> poll_run_completion done_service example_json example_registry (config example_agent)
        init_world
      = (Inr completed_run, init_world\<lparr>fetches := 1\<rparr>)"
proof -
  have a: "0 < agent_timeout_seconds (config example_agent)" by (simp add: example_agent_def)
  have b: "get_run_result done_service (fetches init_world) = Inr completed_run"
    by (simp add: done_service_def)
  have c: "run_status completed_run = COMPLETED \<or> run_status completed_run = FAILED
           \<or> run_status completed_run = CANCELLED"
    by (simp add: completed_run_def)
  show ?thesis
    using poll_returns_terminal_at_once [OF a b c, of example_json example_registry] a b
    by (simp add: completed_run_def init_world_def)
qed

text \<open>When no submission fails, \<open>_handle_tool_calls\<close> raises nothing and neither
  fetches nor sleeps.\<close>

lemma handle_tool_calls_quiet:
  assumes "\<forall>e. \<exists>s. dumps js (error_payload e) = Inr s"
      and "\<forall>k outs. submit_raises svc k outs = None"
  shows "\<exists>w2. handle_tool_calls svc js reg r w = (None, w2)
           \<and> fetches w2 = fetches w \<and> sleeps w2 = sleeps w"
proof (cases "required_action r")
  case None
  then show ?thesis by (simp add: handle_tool_calls_def)
next
  case (Some tcs)
  from tool_calls_loop_total [OF assms(1), of reg tcs "[]"]
  obtain outs where "tool_calls_loop js reg tcs [] = Inr outs" by auto
  with Some assms(2) show ?thesis
    by (simp add: handle_tool_calls_def submit_tool_outputs_def)
qed

lemma poll_loop_times_out:
  assumes d: "\<forall>e. \<exists>s. dumps js (error_payload e) = Inr s"
      and s: "\<forall>k outs. submit_raises svc k outs = None"
      and g: "\<forall>k. \<exists>r. get_run_result svc k = Inr r \<and> run_status r \<noteq> COMPLETED
                  \<and> run_status r \<noteq> FAILED \<and> run_status r \<noteq> CANCELLED"
  shows "n = nat (timeout - elapsed) \<Longrightarrow>
         \<exists>w'. poll_loop svc js reg timeout elapsed w
                = (Inl (Exn ''TimeoutError''
                     (''Run timed out after '' @ str_int timeout @ '' seconds'') None), w')
             \<and> fetches w' = fetches w + n \<and> sleeps w' = sleeps w + n"
proof (induction n arbitrary: elapsed w)
  case 0
  then have "\<not> elapsed < timeout" by simp
  then show ?case by (simp add: poll_loop.simps)
next
  case (Suc n)
  then have lt: "elapsed < timeout" by simp
  from g obtain r where r: "get_run_result svc (fetches w) = Inr r"
     "run_status r \<noteq> COMPLETED" "run_status r \<noteq> FAILED" "run_status r \<noteq> CANCELLED"
    by blast
  obtain w2 where w2:
    "(if run_status r = REQUIRES_ACTION
      then handle_tool_calls svc js reg r (w\<lparr>fetches := Suc (fetches w)\<rparr>)
      else (None, w\<lparr>fetches := Suc (fetches w)\<rparr>)) = (None, w2)"
    "fetches w2 = Suc (fetches w)" "sleeps w2 = sleeps w"
    using handle_tool_calls_quiet [OF d s, of reg r "w\<lparr>fetches := Suc (fetches w)\<rparr>"]
    by (cases "run_status r = REQUIRES_ACTION") auto
  have n: "n = nat (timeout - (elapsed + poll_interval))"
    using Suc.prems by (simp add: poll_interval_def)
  from Suc.IH [OF n, of "w2\<lparr>sleeps := Suc (sleeps w2)\<rparr>"]
  obtain w' where w':
    "poll_loop svc js reg timeout (elapsed + poll_interval) (w2\<lparr>sleeps := Suc (sleeps w2)\<rparr>)
       = (Inl (Exn ''TimeoutError''
            (''Run timed out after '' @ str_int timeout @ '' seconds'') None), w')"
    "fetches w' = fetches (w2\<lparr>sleeps := Suc (sleeps w2)\<rparr>) + n"
    "sleeps w' = sleeps (w2\<lparr>sleeps := Suc (sleeps w2)\<rparr>) + n"
    by blast
  have "poll_loop svc js reg timeout elapsed w
          = poll_loop svc js reg timeout (elapsed + poll_interval)
              (w2\<lparr>sleeps := Suc (sleeps w2)\<rparr>)"
    using lt r w2(1) by (subst poll_loop.simps) simp
  with w' w2 show ?case by simp
qed

text \<open>
  C4: when every status fetch answers with a status other than \<open>COMPLETED\<close>, \<open>FAILED\<close>,
  \<open>CANCELLED\<close> (and no submission of tool outputs fails on the way), the poll loop
  raises \<open>TimeoutError\<close>; it has then made \<open>floor(timeout / poll_interval)\<close> status
  fetches, and the intervals slept add up to the configured timeout.
\<close>

theorem poll_times_out_after_timeout_fetches:
  assumes "\<forall>k. \<exists>r. get_run_result svc k = Inr r \<and> run_status r \<noteq> COMPLETED
                  \<and> run_status r \<noteq> FAILED \<and> run_status r \<noteq> CANCELLED"
      and "\<forall>k outs. submit_raises svc k outs = None"
      and "\<forall>e. \<exists>s. dumps js (error_payload e) = Inr s"
      and "0 \<le> agent_timeout_seconds cfg"
  shows "\<exists>w'. poll_run_completion svc js reg cfg w
                = (Inl (Exn ''TimeoutError''
                     (''Run timed out after '' @ str_int (agent_timeout_seconds cfg)
                      @ '' seconds'') None), w')
             \<and> int (fetches w') - int (fetches w)
                 = \<lfloor>real_of_int (agent_timeout_seconds cfg) / real_of_int poll_interval\<rfloor>
             \<and> int (sleeps w') * poll_interval - int (sleeps w) * poll_interval
                 = agent_timeout_seconds cfg"
proof -
  from poll_loop_times_out [OF assms(3) assms(2) assms(1) refl,
         of reg "agent_timeout_seconds cfg" 0 w]
  obtain w' where
    "poll_loop svc js reg (agent_timeout_seconds cfg) 0 w
       = (Inl (Exn ''TimeoutError''
            (''Run timed out after '' @ str_int (agent_timeout_seconds cfg) @ '' seconds'')
            None), w')"
    "fetches w' = fetches w + nat (agent_timeout_seconds cfg - 0)"
    "sleeps w' = sleeps w + nat (agent_timeout_seconds cfg - 0)"
    by blast
  then show ?thesis
    using assms(4) by (auto simp: poll_run_completion_def poll_interval_def)
qed

theorem poll_times_out_after_timeout_fetches_witness:
  "(\<forall>k. \<exists>r. get_run_result idle_service k = Inr r \<and> run_status r \<noteq> COMPLETED
                  \<and> run_status r \<noteq> FAILED \<and> run_status r \<noteq> CANCELLED)
   \<and> (\<forall>k outs. submit_raises idle_service k outs = None)
   \<and> (\<exists>w'. poll_run_completion idle_service example_json example_registry
              \<lparr>agent_timeout_seconds = 3\<rparr> init_world
            = (Inl (Exn ''TimeoutError'' ''Run timed out after 3 seconds'' None), w')
          \<and> fetches w' = 3 \<and> sleeps w' = 3)"
proof -
  have g: "\<forall>k. \<exists>r. get_run_result idle_service k = Inr r \<and> run_status r \<noteq> COMPLETED
                  \<and> run_status r \<noteq> FAILED \<and> run_status r \<noteq> CANCELLED"
    by (simp add: idle_service_def action_run_def in_progress_run_def)
  have s: "\<forall>k outs. submit_raises idle_service k outs = None"
    by (simp add: idle_service_def)
  have t: "0 \<le> agent_timeout_seconds \<lparr>agent_timeout_seconds = 3\<rparr>" by simp
  from poll_times_out_after_timeout_fetches [OF g s example_dumps_error t,
         of example_registry init_world]
  show ?thesis using g s
    by (auto simp: str_int_def poll_interval_def init_world_def)
qed

section \<open>Properties of a run\<close>







text \<open>A failed submission of tool outputs leaves the poll loop as the exception.\<close>

lemma poll_dispatch_failure:
  assumes "0 < agent_timeout_seconds cfg"
      and "get_run_result svc (fetches w) = Inr r"
      and "run_status r = REQUIRES_ACTION"
      and "handle_tool_calls svc js reg r (w\<lparr>fetches := Suc (fetches w)\<rparr>) = (Some e, w2)"
  shows "poll_run_completion svc js reg cfg w = (Inl e, w2)"
  using assms by (simp add: poll_run_completion_def poll_loop.simps)

end
